theory Spec2Isabelle
  imports Main "HOL-Library.Sublist"
begin

section \<open>Python values\<close>

subsection \<open>Strings\<close>

text \<open>
  A Python \<open>str\<close> is a sequence of Unicode code points, and \<open>len\<close> and slicing count
  code points. The logger prints box-drawing characters and emoji, so a string is a list of
  code points (natural numbers) here; \<open>asc\<close> embeds an ASCII literal.
\<close>

type_synonym pystr = "nat list"

definition asc :: "string \<Rightarrow> pystr" where
  "asc s = map of_char s"

text \<open>\<open>str(n)\<close> for an integer: decimal digits, with a minus sign when negative.\<close>

fun digits10 :: "nat \<Rightarrow> pystr" where
  "digits10 n = (if n < 10 then [48 + n] else digits10 (n div 10) @ [48 + n mod 10])"

declare digits10.simps [simp del]

definition str_int :: "int \<Rightarrow> pystr" where
  "str_int n = (if n < 0 then 45 # digits10 (nat (- n)) else digits10 (nat n))"

text \<open>Lower-case hexadecimal with a fixed number of digits, as \<open>'{0:04x}'.format\<close> gives.\<close>

definition hex_digit :: "nat \<Rightarrow> nat" where
  "hex_digit d = (if d < 10 then 48 + d else 87 + d)"

definition hex_fixed :: "nat \<Rightarrow> nat \<Rightarrow> pystr" where
  "hex_fixed w n = map (\<lambda>i. hex_digit (n div 16 ^ i mod 16)) (rev [0..<w])"

text \<open>\<open>s * n\<close> (empty when \<open>n\<close> is not positive), \<open>sep.join(xs)\<close>, the format
  \<open>{s:<w}\<close> and \<open>s.split("\n")\<close>.\<close>

definition str_mul :: "pystr \<Rightarrow> int \<Rightarrow> pystr" where
  "str_mul s n = concat (replicate (nat n) s)"

fun join :: "pystr \<Rightarrow> pystr list \<Rightarrow> pystr" where
  "join sep [] = []"
| "join sep [x] = x"
| "join sep (x # y # ys) = x @ sep @ join sep (y # ys)"

definition ljust :: "nat \<Rightarrow> pystr \<Rightarrow> pystr" where
  "ljust w s = s @ replicate (w - length s) 32"

fun split_nl :: "pystr \<Rightarrow> pystr list" where
  "split_nl [] = [[]]"
| "split_nl (c # cs) =
     (if c = 10 then [] # split_nl cs
      else (case split_nl cs of [] \<Rightarrow> [[c]] | l # ls \<Rightarrow> (c # l) # ls))"

subsection \<open>Values and exceptions\<close>

text \<open>
  The values the agent loop hands to the logger: \<open>None\<close>, booleans, integers, strings,
  lists, tuples, dictionaries with string keys (in insertion order; a lookup takes the first
  binding) and objects that expose named attributes. An object is given by its class name, the text
  \<open>str()\<close> and \<open>repr()\<close> return for it, and its attributes; it is neither iterable nor
  subscriptable nor JSON-serializable. Floating-point numbers are left out.
\<close>

datatype pyval =
    PNone
  | PBool bool
  | PInt int
  | PStr pystr
  | PList "pyval list"
  | PTuple "pyval list"
  | PDict "(pystr \<times> pyval) list"
  | PObj pystr pystr "(pystr \<times> pyval) list"

text \<open>The exceptions the module can meet. The message of a \<open>TypeError\<close> is kept only
  where the module prints it (the one \<open>json.dumps\<close> raises, see \<open>json_dumps\<close>).\<close>

datatype py_error =
    KeyError pystr
  | AttributeError pystr
  | TypeError
  | ValueError

definition ebind :: "py_error + 'a \<Rightarrow> ('a \<Rightarrow> py_error + 'b) \<Rightarrow> py_error + 'b" where
  "ebind m f = (case m of Inl e \<Rightarrow> Inl e | Inr x \<Rightarrow> f x)"

text \<open>A loop that builds a list and stops at the first exception.\<close>

fun map_err :: "('a \<Rightarrow> py_error + 'b) \<Rightarrow> 'a list \<Rightarrow> py_error + 'b list" where
  "map_err f [] = Inr []"
| "map_err f (x # xs) =
     (case f x of Inl e \<Rightarrow> Inl e
      | Inr y \<Rightarrow> (case map_err f xs of Inl e \<Rightarrow> Inl e | Inr ys \<Rightarrow> Inr (y # ys)))"

subsection \<open>Built-in operations\<close>

text \<open>\<open>d.get(k, default)\<close> and \<open>d[k]\<close> on a dictionary.\<close>

definition dict_get :: "(pystr \<times> pyval) list \<Rightarrow> pystr \<Rightarrow> pyval \<Rightarrow> pyval" where
  "dict_get d k dflt = (case map_of d k of Some v \<Rightarrow> v | None \<Rightarrow> dflt)"

definition dict_item :: "(pystr \<times> pyval) list \<Rightarrow> pystr \<Rightarrow> py_error + pyval" where
  "dict_item d k = (case map_of d k of Some v \<Rightarrow> Inr v | None \<Rightarrow> Inl (KeyError k))"

text \<open>\<open>v.get(k, default)\<close> and \<open>v[k]\<close> with a string key on any value: only a dictionary
  has the method and accepts the key.\<close>

definition py_get :: "pyval \<Rightarrow> pystr \<Rightarrow> pyval \<Rightarrow> py_error + pyval" where
  "py_get v k dflt =
     (case v of PDict d \<Rightarrow> Inr (dict_get d k dflt) | _ \<Rightarrow> Inl (AttributeError (asc ''get'')))"

definition py_item :: "pyval \<Rightarrow> pystr \<Rightarrow> py_error + pyval" where
  "py_item v k = (case v of PDict d \<Rightarrow> dict_item d k | _ \<Rightarrow> Inl TypeError)"

text \<open>\<open>getattr(v, name, default)\<close> and \<open>v.name\<close>, for the attribute names this module
  reads (none of which a built-in value has).\<close>

definition py_getattr :: "pyval \<Rightarrow> pystr \<Rightarrow> pyval \<Rightarrow> pyval" where
  "py_getattr v name dflt =
     (case v of PObj c r a \<Rightarrow> (case map_of a name of Some x \<Rightarrow> x | None \<Rightarrow> dflt)
      | _ \<Rightarrow> dflt)"

definition py_attr :: "pyval \<Rightarrow> pystr \<Rightarrow> py_error + pyval" where
  "py_attr v name =
     (case v of
        PObj c r a \<Rightarrow>
          (case map_of a name of Some x \<Rightarrow> Inr x | None \<Rightarrow> Inl (AttributeError name))
      | _ \<Rightarrow> Inl (AttributeError name))"

text \<open>\<open>for x in v\<close>: the elements of a list or a tuple, the characters of a string, the
  keys of a dictionary.\<close>

definition py_iter :: "pyval \<Rightarrow> py_error + pyval list" where
  "py_iter v =
     (case v of
        PList xs \<Rightarrow> Inr xs
      | PTuple xs \<Rightarrow> Inr xs
      | PStr s \<Rightarrow> Inr (map (\<lambda>c. PStr [c]) s)
      | PDict d \<Rightarrow> Inr (map (\<lambda>kv. PStr (fst kv)) d)
      | _ \<Rightarrow> Inl TypeError)"

definition py_len :: "pyval \<Rightarrow> py_error + nat" where
  "py_len v =
     (case v of
        PStr s \<Rightarrow> Inr (length s)
      | PList xs \<Rightarrow> Inr (length xs)
      | PTuple xs \<Rightarrow> Inr (length xs)
      | PDict d \<Rightarrow> Inr (length d)
      | _ \<Rightarrow> Inl TypeError)"

text \<open>\<open>v[:n]\<close>: a slice never reads past the end. A dictionary refuses a slice
  (\<open>TypeError\<close> up to Python 3.11, \<open>KeyError\<close> from 3.12; the model has the former).\<close>

definition py_slice :: "nat \<Rightarrow> pyval \<Rightarrow> py_error + pyval" where
  "py_slice n v =
     (case v of
        PStr s \<Rightarrow> Inr (PStr (take n s))
      | PList xs \<Rightarrow> Inr (PList (take n xs))
      | PTuple xs \<Rightarrow> Inr (PTuple (take n xs))
      | _ \<Rightarrow> Inl TypeError)"

text \<open>\<open>v + "..."\<close>: only a string can be concatenated with a string.\<close>

definition py_add_str :: "pyval \<Rightarrow> pystr \<Rightarrow> py_error + pyval" where
  "py_add_str v s = (case v of PStr t \<Rightarrow> Inr (PStr (t @ s)) | _ \<Rightarrow> Inl TypeError)"

text \<open>
  \<open>dict(v)\<close>: a dictionary is copied; another iterable must yield pairs, each an iterable
  of two items, and a later pair overwrites the value of an earlier one with the same key.
  The dictionaries of this model have string keys. For a pair whose key is not a string the
  model has \<open>TypeError\<close>: that is what Python raises for an unhashable key (a list or a
  dictionary), whereas for a hashable one (a number, \<open>None\<close>, a tuple) Python builds a
  dictionary with that key, which no value of this model stands for. The logger reaches
  \<open>dict\<close> only on the \<open>input\<close> of a \<open>tool_use\<close> block given by attributes, which the
  data model types as a mapping; the properties below are stated for a mapping.
\<close>

definition dict_set :: "pystr \<Rightarrow> pyval \<Rightarrow> (pystr \<times> pyval) list \<Rightarrow> (pystr \<times> pyval) list" where
  "dict_set k v d =
     (if k \<in> fst ` set d then map (\<lambda>kv. if fst kv = k then (k, v) else kv) d else d @ [(k, v)])"

definition dict_pair :: "pyval \<Rightarrow> py_error + (pystr \<times> pyval)" where
  "dict_pair x =
     (case x of
        PList [PStr k, v] \<Rightarrow> Inr (k, v)
      | PList [_, _] \<Rightarrow> Inl TypeError
      | PList _ \<Rightarrow> Inl ValueError
      | PTuple [PStr k, v] \<Rightarrow> Inr (k, v)
      | PTuple [_, _] \<Rightarrow> Inl TypeError
      | PTuple _ \<Rightarrow> Inl ValueError
      | PStr [a, b] \<Rightarrow> Inr ([a], PStr [b])
      | PStr _ \<Rightarrow> Inl ValueError
      | PDict [(a, _), (b, _)] \<Rightarrow> Inr (a, PStr b)
      | PDict _ \<Rightarrow> Inl ValueError
      | _ \<Rightarrow> Inl TypeError)"

fun dict_update :: "(pystr \<times> pyval) list \<Rightarrow> pyval list \<Rightarrow> py_error + (pystr \<times> pyval) list" where
  "dict_update d [] = Inr d"
| "dict_update d (x # xs) =
     (case dict_pair x of Inl e \<Rightarrow> Inl e | Inr (k, v) \<Rightarrow> dict_update (dict_set k v d) xs)"

definition py_dict :: "pyval \<Rightarrow> py_error + (pystr \<times> pyval) list" where
  "py_dict v =
     (case v of
        PDict d \<Rightarrow> Inr d
      | _ \<Rightarrow> ebind (py_iter v) (dict_update []))"

subsection \<open>\<open>repr\<close> and \<open>str\<close>\<close>

text \<open>
  \<open>repr\<close> of a string quotes it (with double quotes only when it holds a single quote and
  no double quote) and escapes the quote, the backslash, control characters and the
  non-ASCII code points that are not printable. Which code points are printable is a table of
  the interpreter's Unicode database; it is the parameter \<open>pr\<close> of everything that formats a
  value.
\<close>

definition repr_char :: "(nat \<Rightarrow> bool) \<Rightarrow> nat \<Rightarrow> nat \<Rightarrow> pystr" where
  "repr_char pr q c =
     (if c = q \<or> c = 92 then [92, c]
      else if c = 9 then [92, 116]
      else if c = 10 then [92, 110]
      else if c = 13 then [92, 114]
      else if c < 32 \<or> c = 127 then [92, 120] @ hex_fixed 2 c
      else if c < 127 then [c]
      else if pr c then [c]
      else if c \<le> 255 then [92, 120] @ hex_fixed 2 c
      else if c \<le> 65535 then [92, 117] @ hex_fixed 4 c
      else [92, 85] @ hex_fixed 8 c)"

definition repr_str :: "(nat \<Rightarrow> bool) \<Rightarrow> pystr \<Rightarrow> pystr" where
  "repr_str pr s =
     (let q = (if 39 \<in> set s \<and> 34 \<notin> set s then 34 else 39)
      in q # concat (map (repr_char pr q) s) @ [q])"

fun py_repr :: "(nat \<Rightarrow> bool) \<Rightarrow> pyval \<Rightarrow> pystr" where
  "py_repr pr PNone = asc ''None''"
| "py_repr pr (PBool b) = (if b then asc ''True'' else asc ''False'')"
| "py_repr pr (PInt n) = str_int n"
| "py_repr pr (PStr s) = repr_str pr s"
| "py_repr pr (PList xs) = asc ''['' @ join (asc '', '') (map (py_repr pr) xs) @ asc '']''"
| "py_repr pr (PTuple xs) =
     asc ''('' @ join (asc '', '') (map (py_repr pr) xs) @
     (if length xs = 1 then asc '','' else []) @ asc '')''"
| "py_repr pr (PDict kvs) =
     asc ''{'' @
     join (asc '', '') (map (\<lambda>kv. repr_str pr (fst kv) @ asc '': '' @ py_repr pr (snd kv)) kvs) @
     asc ''}''"
| "py_repr pr (PObj c r a) = r"

text \<open>\<open>str(v)\<close>, which an f-string applies to what it interpolates.\<close>

definition py_str :: "(nat \<Rightarrow> bool) \<Rightarrow> pyval \<Rightarrow> pystr" where
  "py_str pr v = (case v of PStr s \<Rightarrow> s | _ \<Rightarrow> py_repr pr v)"

subsection \<open>\<open>json.dumps(data, ensure_ascii=False, indent=n)\<close>\<close>

text \<open>
  With \<open>ensure_ascii=False\<close> the encoder escapes the double quote, the backslash and the
  control characters below 32, and copies every other code point. It writes a tuple as it
  writes a list.
\<close>

definition json_escape_char :: "nat \<Rightarrow> pystr" where
  "json_escape_char c =
     (if c = 34 then [92, 34]
      else if c = 92 then [92, 92]
      else if c = 10 then [92, 110]
      else if c = 13 then [92, 114]
      else if c = 9 then [92, 116]
      else if c = 8 then [92, 98]
      else if c = 12 then [92, 102]
      else if c < 32 then [92, 117, 48, 48] @ hex_fixed 2 c
      else [c])"

definition json_string :: "pystr \<Rightarrow> pystr" where
  "json_string s = 34 # concat (map json_escape_char s) @ [34]"

text \<open>The line break before an item at nesting level \<open>lvl\<close>.\<close>

definition newline_indent :: "nat \<Rightarrow> nat \<Rightarrow> pystr" where
  "newline_indent ind lvl = 10 # replicate (ind * lvl) 32"

fun json_text :: "nat \<Rightarrow> nat \<Rightarrow> pyval \<Rightarrow> pystr" where
  "json_text ind lvl PNone = asc ''null''"
| "json_text ind lvl (PBool b) = (if b then asc ''true'' else asc ''false'')"
| "json_text ind lvl (PInt n) = str_int n"
| "json_text ind lvl (PStr s) = json_string s"
| "json_text ind lvl (PList xs) =
     (if xs = [] then asc ''[]''
      else asc ''['' @ newline_indent ind (Suc lvl) @
           join (asc '','' @ newline_indent ind (Suc lvl)) (map (json_text ind (Suc lvl)) xs) @
           newline_indent ind lvl @ asc '']'')"
| "json_text ind lvl (PTuple xs) =
     (if xs = [] then asc ''[]''
      else asc ''['' @ newline_indent ind (Suc lvl) @
           join (asc '','' @ newline_indent ind (Suc lvl)) (map (json_text ind (Suc lvl)) xs) @
           newline_indent ind lvl @ asc '']'')"
| "json_text ind lvl (PDict kvs) =
     (if kvs = [] then asc ''{}''
      else asc ''{'' @ newline_indent ind (Suc lvl) @
           join (asc '','' @ newline_indent ind (Suc lvl))
             (map (\<lambda>kv. json_string (fst kv) @ asc '': '' @ json_text ind (Suc lvl) (snd kv)) kvs) @
           newline_indent ind lvl @ asc ''}'')"
| "json_text ind lvl (PObj c r a) = []"

text \<open>The class of the first object the encoder meets, if any: it raises \<open>TypeError\<close>
  there, and \<open>json.dumps\<close> returns nothing.\<close>

fun first_some :: "'a option list \<Rightarrow> 'a option" where
  "first_some [] = None"
| "first_some (None # xs) = first_some xs"
| "first_some (Some x # xs) = Some x"

fun first_unserializable :: "pyval \<Rightarrow> pystr option" where
  "first_unserializable (PObj c r a) = Some c"
| "first_unserializable (PList xs) = first_some (map first_unserializable xs)"
| "first_unserializable (PTuple xs) = first_some (map first_unserializable xs)"
| "first_unserializable (PDict kvs) = first_some (map (\<lambda>kv. first_unserializable (snd kv)) kvs)"
| "first_unserializable v = None"

text \<open>\<open>Inl msg\<close>: \<open>json.dumps\<close> raised \<open>TypeError(msg)\<close>; \<open>Inr text\<close>: it returned
  \<open>text\<close>. A negative indent indents by nothing.\<close>

definition json_dumps :: "int \<Rightarrow> pyval \<Rightarrow> pystr + pystr" where
  "json_dumps indent data =
     (case first_unserializable data of
        Some c \<Rightarrow> Inl (asc ''Object of type '' @ c @ asc '' is not JSON serializable'')
      | None \<Rightarrow> Inr (json_text (nat indent) 0 data))"

section \<open>The logger\<close>

subsection \<open>State and effects\<close>

text \<open>
  \<open>AgentLogger.__init__\<close> stores the two flags and sets the counter \<open>_iteration\<close> to 0.
\<close>

record AgentLogger =
  verbose :: bool
  show_raw :: bool
  iteration :: int

definition init :: "bool \<Rightarrow> bool \<Rightarrow> AgentLogger" where
  "init v r = \<lparr>verbose = v, show_raw = r, iteration = 0\<rparr>"

definition get_logger :: "bool \<Rightarrow> bool \<Rightarrow> AgentLogger" where
  "get_logger v r = init v r"

text \<open>Both flags default to true; \<open>_default_logger\<close> is built with the defaults.\<close>

definition default_logger :: AgentLogger where
  "default_logger = init True True"

text \<open>
  What a call of a method does: the logger it leaves, the arguments of its \<open>print\<close> calls
  in order (each call writes its argument and a line break to standard output), and the
  exception it propagates to the caller, if any. What was printed before an exception stays
  printed.
\<close>

record effect =
  logger :: AgentLogger
  printed :: "pystr list"
  raised :: "py_error option"

definition emit :: "AgentLogger \<Rightarrow> pystr list \<Rightarrow> effect" where
  "emit L ls = \<lparr>logger = L, printed = ls, raised = None\<rparr>"

definition raise :: "AgentLogger \<Rightarrow> py_error \<Rightarrow> effect" where
  "raise L e = \<lparr>logger = L, printed = [], raised = Some e\<rparr>"

text \<open>One statement after another: the second runs on the logger the first leaves, unless
  the first raised.\<close>

definition seq :: "effect \<Rightarrow> (AgentLogger \<Rightarrow> effect) \<Rightarrow> effect" where
  "seq e f =
     (case raised e of
        Some x \<Rightarrow> e
      | None \<Rightarrow>
          (let e' = f (logger e)
           in \<lparr>logger = logger e', printed = printed e @ printed e', raised = raised e'\<rparr>))"

fun for_each :: "('a \<Rightarrow> AgentLogger \<Rightarrow> effect) \<Rightarrow> 'a list \<Rightarrow> AgentLogger \<Rightarrow> effect" where
  "for_each body [] L = emit L []"
| "for_each body (x # xs) L = seq (body x L) (for_each body xs)"

text \<open>An evaluation that may raise, followed by the statements that use its value.\<close>

definition try_eval :: "AgentLogger \<Rightarrow> py_error + 'a \<Rightarrow> ('a \<Rightarrow> effect) \<Rightarrow> effect" where
  "try_eval L m f = (case m of Inl e \<Rightarrow> raise L e | Inr x \<Rightarrow> f x)"

subsection \<open>Formatter core\<close>

text \<open>The table \<open>COLORS\<close>; 27 is the escape character.\<close>

definition COLORS :: "(string \<times> pystr) list" where
  "COLORS =
    [(''reset'', 27 # asc ''[0m''), (''bold'', 27 # asc ''[1m''), (''dim'', 27 # asc ''[2m''),
     (''underline'', 27 # asc ''[4m''), (''red'', 27 # asc ''[31m''),
     (''green'', 27 # asc ''[32m''), (''yellow'', 27 # asc ''[33m''),
     (''blue'', 27 # asc ''[34m''), (''magenta'', 27 # asc ''[35m''),
     (''cyan'', 27 # asc ''[36m''), (''white'', 27 # asc ''[37m''),
     (''bg_black'', 27 # asc ''[40m''), (''bg_red'', 27 # asc ''[41m''),
     (''bg_green'', 27 # asc ''[42m''), (''bg_yellow'', 27 # asc ''[43m''),
     (''bg_blue'', 27 # asc ''[44m''), (''bg_magenta'', 27 # asc ''[45m''),
     (''bg_cyan'', 27 # asc ''[46m'')]"

text \<open>\<open>_color\<close>: \<open>COLORS.get(color, '')\<close>, the text, \<open>COLORS['reset']\<close>.\<close>

definition color :: "pystr \<Rightarrow> string \<Rightarrow> pystr" where
  "color text c =
     (case map_of COLORS c of Some esc \<Rightarrow> esc | None \<Rightarrow> []) @ text @
     (case map_of COLORS ''reset'' of Some esc \<Rightarrow> esc | None \<Rightarrow> [])"

text \<open>\<open>_timestamp\<close>: \<open>now\<close> is what \<open>datetime.now().strftime("%H:%M:%S.%f")\<close> returns;
  \<open>[:-3]\<close> drops its last three characters.\<close>

definition timestamp :: "pystr \<Rightarrow> pystr" where
  "timestamp now = color (take (length now - 3) now) ''dim''"

text \<open>\<open>separator(title="", char="\<dots>", width=80)\<close>; the default \<open>char\<close> is the
  box-drawing dash, code point 9472.\<close>

definition separator :: "AgentLogger \<Rightarrow> pystr \<Rightarrow> pystr \<Rightarrow> int \<Rightarrow> effect" where
  "separator L title char width =
     (if \<not> verbose L then emit L []
      else
        (let line =
           (if title \<noteq> []
            then str_mul char 10 @ asc '' '' @ title @ asc '' '' @
                 str_mul char (width - 12 - int (length title))
            else str_mul char width)
         in emit L [color (10 # line) ''dim'']))"

text \<open>\<open>header(text, session_name="")\<close>; 9552 is the double horizontal bar.\<close>

definition header :: "AgentLogger \<Rightarrow> pystr \<Rightarrow> pystr \<Rightarrow> effect" where
  "header L text session_name =
     seq (emit L [color (10 # replicate 80 9552) ''cyan''])
       (\<lambda>L. seq (if session_name \<noteq> []
                 then emit L [color (asc ''  ['' @ session_name @ asc '']'') ''dim'']
                 else emit L [])
       (\<lambda>L. emit L [color (asc ''  '' @ text) ''bold'', color (replicate 80 9552) ''cyan'']))"

text \<open>\<open>section(text, icon)\<close>, named \<open>section_title\<close> here; the default icon is code
  point 9654.\<close>

definition section_title :: "AgentLogger \<Rightarrow> pystr \<Rightarrow> pystr \<Rightarrow> effect" where
  "section_title L text icon =
     (if \<not> verbose L then emit L []
      else emit L [color (10 # icon @ asc '' '' @ text) ''cyan''])"

text \<open>\<open>key_value(key, value, indent=2, color="yellow")\<close>. The value is interpolated into
  the line; every call of this module passes a string.\<close>

definition key_value :: "AgentLogger \<Rightarrow> pystr \<Rightarrow> pystr \<Rightarrow> int \<Rightarrow> string \<Rightarrow> effect" where
  "key_value L key val indent c =
     (let spaces = str_mul (asc '' '') indent;
          key_str = color (key @ asc '':'') c
      in emit L [spaces @ key_str @ asc '' '' @ val])"

text \<open>\<open>json_block(title, data, indent=2, color="magenta")\<close>: when \<open>json.dumps\<close> raises,
  the value is printed through \<open>str\<close> instead.\<close>

definition json_block ::
  "(nat \<Rightarrow> bool) \<Rightarrow> AgentLogger \<Rightarrow> pystr \<Rightarrow> pyval \<Rightarrow> int \<Rightarrow> string \<Rightarrow> effect" where
  "json_block pr L title data indent c =
     (if \<not> verbose L then emit L []
      else
        (let spaces = str_mul (asc '' '') indent;
             title_str = color (title @ asc '':'') c
         in seq (emit L [spaces @ title_str])
              (\<lambda>L. case json_dumps (indent + 2) data of
                     Inr formatted \<Rightarrow>
                       for_each (\<lambda>line L. emit L [color (spaces @ asc ''  '' @ line) ''dim''])
                         (split_nl formatted) L
                   | Inl msg \<Rightarrow>
                       emit L [color (spaces @ asc ''  '' @ py_str pr data) ''dim''])))"

subsection \<open>Content normalizer: the structure preview of a request\<close>

text \<open>
  The body of the loop over the blocks of a list-valued \<open>content\<close> in \<open>request_raw\<close>: a
  dictionary is read by key, anything else by attribute.
\<close>

definition block_field :: "pyval \<Rightarrow> pystr \<Rightarrow> pyval \<Rightarrow> pyval" where
  "block_field block name dflt =
     (case block of PDict d \<Rightarrow> dict_get d name dflt | _ \<Rightarrow> py_getattr block name dflt)"

definition summarize_block :: "(nat \<Rightarrow> bool) \<Rightarrow> pyval \<Rightarrow> py_error + pyval" where
  "summarize_block pr block =
     (let block_type = block_field block (asc ''type'') (PStr (asc ''unknown''))
      in if block_type = PStr (asc ''tool_result'') then
           (let tool_id = block_field block (asc ''tool_use_id'') (PStr [])
            in ebind (py_slice 16 tool_id)
                 (\<lambda>t. Inr (PStr (asc ''tool_result(id='' @ py_str pr t @ asc ''...)''))))
         else if block_type = PStr (asc ''tool_use'') then
           (let name = block_field block (asc ''name'') (PStr [])
            in Inr (PStr (asc ''tool_use(name='' @ py_str pr name @ asc '')'')))
         else Inr block_type)"

text \<open>The body of the loop of the last branch (a \<open>content\<close> that is neither a string nor
  a list): every block is read by attribute.\<close>

definition summarize_object_block :: "(nat \<Rightarrow> bool) \<Rightarrow> pyval \<Rightarrow> py_error + pyval" where
  "summarize_object_block pr block =
     (let block_type = py_getattr block (asc ''type'') (PStr (asc ''unknown''))
      in if block_type = PStr (asc ''tool_result'') then
           (let tool_id = py_getattr block (asc ''tool_use_id'') (PStr [])
            in ebind (py_slice 16 tool_id)
                 (\<lambda>t. Inr (PStr (asc ''tool_result(id='' @ py_str pr t @ asc ''...)''))))
         else if block_type = PStr (asc ''tool_use'') then
           (let name = py_getattr block (asc ''name'') (PStr [])
            in Inr (PStr (asc ''tool_use(name='' @ py_str pr name @ asc '')'')))
         else Inr block_type)"

text \<open>The body of the loop over the messages: \<open>msg["role"]\<close>, \<open>msg.get("content", "")\<close>
  and the reduced content.\<close>

definition message_entry :: "(nat \<Rightarrow> bool) \<Rightarrow> pyval \<Rightarrow> py_error + pyval" where
  "message_entry pr msg =
     ebind (py_item msg (asc ''role'')) (\<lambda>role.
     ebind (py_get msg (asc ''content'') (PStr [])) (\<lambda>content.
       case content of
         PStr s \<Rightarrow>
           Inr (PDict [(asc ''role'', role),
                       (asc ''content'',
                        PStr (asc ''<text: '' @ str_int (int (length s)) @ asc '' chars>''))])
       | PList blocks \<Rightarrow>
           ebind (map_err (summarize_block pr) blocks) (\<lambda>blocks_summary.
             Inr (PDict [(asc ''role'', role), (asc ''content'', PList blocks_summary)]))
       | _ \<Rightarrow>
           ebind (py_iter content) (\<lambda>blocks.
           ebind (map_err (summarize_object_block pr) blocks) (\<lambda>blocks_summary.
             Inr (PDict [(asc ''role'', role), (asc ''content'', PList blocks_summary)])))))"

text \<open>An element of the comprehension over the tools.\<close>

definition tool_entry :: "pyval \<Rightarrow> py_error + pyval" where
  "tool_entry t =
     ebind (py_item t (asc ''name'')) (\<lambda>name.
     ebind (py_item t (asc ''description'')) (\<lambda>description.
     ebind (py_slice 50 description) (\<lambda>cut.
     ebind (py_add_str cut (asc ''...'')) (\<lambda>shown.
       Inr (PDict [(asc ''name'', name), (asc ''description'', shown)])))))"

text \<open>The dictionary \<open>request_data\<close> that \<open>request_raw\<close> builds and prints as the
  structure preview.\<close>

definition request_data ::
  "(nat \<Rightarrow> bool) \<Rightarrow> pystr \<Rightarrow> pystr \<Rightarrow> pyval list \<Rightarrow> pyval list \<Rightarrow> int \<Rightarrow> py_error + pyval" where
  "request_data pr model system messages tools max_tokens =
     ebind (map_err tool_entry tools) (\<lambda>tool_entries.
     ebind (map_err (message_entry pr) messages) (\<lambda>message_entries.
       Inr (PDict
         [(asc ''model'', PStr model),
          (asc ''max_tokens'', PInt max_tokens),
          (asc ''system'',
           PStr (if length system > 100 then take 100 system @ asc ''...'' else system)),
          (asc ''tools'', PList tool_entries),
          (asc ''messages'', PList message_entries)])))"

subsection \<open>Serializer\<close>

text \<open>\<open>_serialize_content\<close>: the body of its loop, and the loop over what \<open>content\<close>
  yields.\<close>

definition serialize_block :: "(nat \<Rightarrow> bool) \<Rightarrow> pyval \<Rightarrow> py_error + pyval" where
  "serialize_block pr block =
     (case block of
        PDict d \<Rightarrow> Inr block
      | _ \<Rightarrow>
          (let block_type = py_getattr block (asc ''type'') PNone
           in if block_type = PStr (asc ''text'') then
                Inr (PDict [(asc ''type'', PStr (asc ''text'')),
                            (asc ''text'', py_getattr block (asc ''text'') (PStr []))])
              else if block_type = PStr (asc ''tool_use'') then
                ebind (py_dict (py_getattr block (asc ''input'') (PDict []))) (\<lambda>input.
                  Inr (PDict [(asc ''type'', PStr (asc ''tool_use'')),
                              (asc ''id'', py_getattr block (asc ''id'') (PStr [])),
                              (asc ''name'', py_getattr block (asc ''name'') (PStr [])),
                              (asc ''input'', PDict input)]))
              else Inr (PDict [(asc ''type'', PStr (py_str pr block_type))])))"

definition serialize_content :: "(nat \<Rightarrow> bool) \<Rightarrow> pyval \<Rightarrow> py_error + pyval list" where
  "serialize_content pr content = ebind (py_iter content) (map_err (serialize_block pr))"

text \<open>\<open>_serialize_messages\<close>.\<close>

definition serialize_message :: "(nat \<Rightarrow> bool) \<Rightarrow> pyval \<Rightarrow> py_error + pyval" where
  "serialize_message pr msg =
     ebind (py_item msg (asc ''role'')) (\<lambda>role.
     ebind (py_get msg (asc ''content'') (PStr [])) (\<lambda>content.
       case content of
         PStr s \<Rightarrow> Inr (PDict [(asc ''role'', role), (asc ''content'', content)])
       | PList blocks \<Rightarrow>
           ebind (serialize_content pr content) (\<lambda>bs.
             Inr (PDict [(asc ''role'', role), (asc ''content'', PList bs)]))
       | _ \<Rightarrow>
           Inr (PDict [(asc ''role'', role), (asc ''content'', PStr (py_str pr content))])))"

definition serialize_messages :: "(nat \<Rightarrow> bool) \<Rightarrow> pyval list \<Rightarrow> py_error + pyval list" where
  "serialize_messages pr messages = map_err (serialize_message pr) messages"

subsection \<open>Framed output\<close>

text \<open>\<open>_print_structured_json\<close>; 128202 is the chart emoji. Both branches of the test for
  \<open>":\<close> in a line print the same.\<close>

definition print_structured_json :: "AgentLogger \<Rightarrow> pyval \<Rightarrow> pystr \<Rightarrow> effect" where
  "print_structured_json L data title =
     seq (emit L [color ([10, 32, 32, 128202, 32] @ title @ asc '':'') ''cyan''])
       (\<lambda>L. case json_dumps 4 data of
              Inr formatted \<Rightarrow>
                for_each
                  (\<lambda>line L.
                     if sublist [34, 58] line
                     then emit L [color (asc ''    '' @ line) ''dim'']
                     else emit L [color (asc ''    '' @ line) ''dim''])
                  (split_nl formatted) L
            | Inl msg \<Rightarrow> emit L [color (asc ''    Error formatting: '' @ msg) ''red''])"

text \<open>\<open>_print_code_block\<close>: a line longer than 74 characters is cut to 71 and an
  ellipsis, and every line is padded to 74. The corners and bars of the frame are the code
  points 9484, 9472, 9488, 9474, 9492, 9496.\<close>

definition code_block_line :: "pystr \<Rightarrow> pystr" where
  "code_block_line line0 =
     (let line = (if length line0 > 74 then take 71 line0 @ asc ''...'' else line0)
      in color ([32, 32, 9474, 32] @ ljust 74 line @ [32, 9474]) ''dim'')"

definition print_code_block :: "AgentLogger \<Rightarrow> pyval \<Rightarrow> effect" where
  "print_code_block L data =
     (case json_dumps 2 data of
        Inr formatted \<Rightarrow>
          seq (emit L [color (asc ''  '' @ [9484] @ replicate 76 9472 @ [9488]) ''dim''])
            (\<lambda>L. seq (for_each (\<lambda>line L. emit L [code_block_line line]) (split_nl formatted) L)
            (\<lambda>L. emit L [color (asc ''  '' @ [9492] @ replicate 76 9472 @ [9496]) ''dim'']))
      | Inl msg \<Rightarrow> emit L [color (asc ''    Error: '' @ msg) ''red''])"

subsection \<open>Raw API data\<close>

text \<open>\<open>request_raw(model, system, messages, tools, max_tokens=8000)\<close>; 128228 and 128196
  are the outbox and page emoji.\<close>

definition request_raw ::
  "(nat \<Rightarrow> bool) \<Rightarrow> AgentLogger \<Rightarrow> pystr \<Rightarrow> pystr \<Rightarrow> pyval list \<Rightarrow> pyval list \<Rightarrow> int \<Rightarrow> effect" where
  "request_raw pr L model system messages tools max_tokens =
     (if \<not> show_raw L then emit L []
      else
        seq (emit L
          [color (10 # [9484] @ replicate 78 9472 @ [9488]) ''magenta'',
           color ([9474, 32, 32, 128228] @ asc '' RAW API REQUEST'' @ replicate 57 32 @ [9474])
             ''magenta'',
           color ([9492] @ replicate 78 9472 @ [9496]) ''magenta''])
        (\<lambda>L. try_eval L (request_data pr model system messages tools max_tokens)
        (\<lambda>data. seq (print_structured_json L data (asc ''Request Structure''))
        (\<lambda>L. seq (emit L
          [color ([10, 32, 32, 128196] @ asc '' Full Request JSON (copy-paste ready):'') ''cyan''])
        (\<lambda>L. try_eval L (serialize_messages pr messages)
        (\<lambda>serialized. print_code_block L
           (PDict [(asc ''model'', PStr model),
                   (asc ''max_tokens'', PInt max_tokens),
                   (asc ''system'', PStr system),
                   (asc ''tools'', PList tools),
                   (asc ''messages'', PList serialized)])))))))"

text \<open>The fields both dictionaries of \<open>response_raw\<close> start with, read from the response
  in this order.\<close>

definition response_fields :: "pyval \<Rightarrow> py_error + (pystr \<times> pyval) list" where
  "response_fields response =
     ebind (py_attr response (asc ''id'')) (\<lambda>rid.
     ebind (py_attr response (asc ''model'')) (\<lambda>model.
     ebind (py_attr response (asc ''role'')) (\<lambda>role.
     ebind (py_attr response (asc ''stop_reason'')) (\<lambda>stop_reason.
     ebind (py_attr response (asc ''stop_sequence'')) (\<lambda>stop_sequence.
     ebind (py_attr response (asc ''usage'')) (\<lambda>usage.
     ebind (py_attr usage (asc ''input_tokens'')) (\<lambda>input_tokens.
     ebind (py_attr usage (asc ''output_tokens'')) (\<lambda>output_tokens.
       Inr [(asc ''id'', rid), (asc ''model'', model), (asc ''role'', role),
            (asc ''stop_reason'', stop_reason), (asc ''stop_sequence'', stop_sequence),
            (asc ''usage'', PDict [(asc ''input_tokens'', input_tokens),
                                  (asc ''output_tokens'', output_tokens)])]))))))))"

text \<open>The body of the loop over \<open>response.content\<close>.\<close>

definition response_block_entry :: "pyval \<Rightarrow> py_error + pyval" where
  "response_block_entry block =
     (let block_type = py_getattr block (asc ''type'') (PStr (asc ''unknown''))
      in if block_type = PStr (asc ''text'') then
           ebind (py_len (py_getattr block (asc ''text'') (PStr []))) (\<lambda>n.
             Inr (PDict [(asc ''type'', block_type),
                         (asc ''text'', PStr (asc ''<'' @ str_int (int n) @ asc '' chars>''))]))
         else if block_type = PStr (asc ''tool_use'') then
           Inr (PDict [(asc ''type'', block_type),
                       (asc ''id'', py_getattr block (asc ''id'') (PStr [])),
                       (asc ''name'', py_getattr block (asc ''name'') (PStr [])),
                       (asc ''input'', py_getattr block (asc ''input'') (PDict []))])
         else Inr (PDict [(asc ''type'', block_type)]))"

definition response_data :: "pyval \<Rightarrow> py_error + pyval" where
  "response_data response =
     ebind (response_fields response) (\<lambda>fields.
     ebind (py_attr response (asc ''content'')) (\<lambda>content.
     ebind (py_iter content) (\<lambda>blocks.
     ebind (map_err response_block_entry blocks) (\<lambda>entries.
       Inr (PDict (fields @ [(asc ''content'', PList entries)]))))))"

definition full_response :: "(nat \<Rightarrow> bool) \<Rightarrow> pyval \<Rightarrow> py_error + pyval" where
  "full_response pr response =
     ebind (response_fields response) (\<lambda>fields.
     ebind (py_attr response (asc ''content'')) (\<lambda>content.
     ebind (serialize_content pr content) (\<lambda>serialized.
       Inr (PDict (fields @ [(asc ''content'', PList serialized)])))))"

text \<open>\<open>response_raw(response)\<close>; 128229 is the inbox emoji.\<close>

definition response_raw :: "(nat \<Rightarrow> bool) \<Rightarrow> AgentLogger \<Rightarrow> pyval \<Rightarrow> effect" where
  "response_raw pr L response =
     (if \<not> show_raw L then emit L []
      else
        seq (emit L
          [color (10 # [9484] @ replicate 78 9472 @ [9488]) ''blue'',
           color ([9474, 32, 32, 128229] @ asc '' RAW API RESPONSE'' @ replicate 56 32 @ [9474])
             ''blue'',
           color ([9492] @ replicate 78 9472 @ [9496]) ''blue''])
        (\<lambda>L. try_eval L (response_data response)
        (\<lambda>data. seq (print_structured_json L data (asc ''Response Structure''))
        (\<lambda>L. seq (emit L
          [color ([10, 32, 32, 128196] @ asc '' Full Response JSON (copy-paste ready):'') ''cyan''])
        (\<lambda>L. try_eval L (full_response pr response) (print_code_block L))))))"

subsection \<open>Loop and message tracking\<close>

text \<open>\<open>loop_iteration(iteration)\<close>, the one method that assigns \<open>_iteration\<close>; 128260 is
  the arrows emoji.\<close>

definition loop_iteration :: "AgentLogger \<Rightarrow> int \<Rightarrow> effect" where
  "loop_iteration L n =
     (if \<not> verbose L then emit L []
      else
        emit (L\<lparr>iteration := n\<rparr>)
          [color (10 # [9484] @ replicate 78 9472 @ [9488]) ''cyan'',
           color ([9474, 32, 32, 128260] @ asc '' LOOP ITERATION #'' @ ljust 62 (str_int n) @ [9474])
             ''cyan'',
           color ([9492] @ replicate 78 9472 @ [9496]) ''cyan''])"

text \<open>\<open>messages_snapshot(messages, title="MESSAGES SNAPSHOT")\<close>: the body of its loop
  prints one line for a string content, one for a list content, and nothing otherwise;
  128203 is the clipboard emoji.\<close>

definition role_color :: "pyval \<Rightarrow> string" where
  "role_color role =
     (if role = PStr (asc ''user'') then ''green''
      else if role = PStr (asc ''assistant'') then ''yellow''
      else ''white'')"

definition snapshot_entry :: "(nat \<Rightarrow> bool) \<Rightarrow> nat \<times> pyval \<Rightarrow> AgentLogger \<Rightarrow> effect" where
  "snapshot_entry pr im L =
     (let i = fst im; msg = snd im
      in try_eval L (py_get msg (asc ''role'') (PStr (asc ''unknown''))) (\<lambda>role.
         try_eval L (py_get msg (asc ''content'') (PStr [])) (\<lambda>content.
           case content of
             PStr c \<Rightarrow>
               (let preview = take 60 c @ (if length c > 60 then asc ''...'' else [])
                in emit L [asc ''    ['' @ str_int (int i) @ asc ''] '' @
                           color (py_str pr role) (role_color role) @ asc '': '' @
                           color preview ''dim''])
           | PList blocks \<Rightarrow>
               (let block_types =
                      map (\<lambda>b. block_field b (asc ''type'') (PStr (asc ''unknown''))) blocks
                in emit L [asc ''    ['' @ str_int (int i) @ asc ''] '' @
                           color (py_str pr role) (role_color role) @ asc '': '' @
                           color (py_str pr (PList block_types)) ''dim''])
           | _ \<Rightarrow> emit L [])))"

definition messages_snapshot ::
  "(nat \<Rightarrow> bool) \<Rightarrow> AgentLogger \<Rightarrow> pyval list \<Rightarrow> pystr \<Rightarrow> effect" where
  "messages_snapshot pr L messages title =
     (if \<not> verbose L then emit L []
      else
        seq (emit L
          [color ([10, 32, 32, 128203, 32] @ title) ''blue'',
           color (asc ''  Total messages: '' @ str_int (int (length messages))) ''dim''])
        (for_each (snapshot_entry pr) (enumerate 0 messages)))"

subsection \<open>Tool calls\<close>

text \<open>\<open>tool_call(name, input_data, tool_id="")\<close>: the id line is printed when the id is
  not empty; 9889 is the lightning sign.\<close>

definition tool_call_item :: "(nat \<Rightarrow> bool) \<Rightarrow> pystr \<times> pyval \<Rightarrow> AgentLogger \<Rightarrow> effect" where
  "tool_call_item pr kv L =
     (let v_str0 = py_str pr (snd kv);
          v_str = (if length v_str0 > 60 then take 60 v_str0 @ asc ''...'' else v_str0)
      in emit L [color (asc ''      '' @ fst kv @ asc '': '' @ v_str) ''dim''])"

definition tool_call ::
  "(nat \<Rightarrow> bool) \<Rightarrow> AgentLogger \<Rightarrow> pystr \<Rightarrow> (pystr \<times> pyval) list \<Rightarrow> pystr \<Rightarrow> effect" where
  "tool_call pr L name input_data tool_id =
     seq (emit L [color ([10, 32, 32, 9889] @ asc '' TOOL CALL'') ''green''])
       (\<lambda>L. seq (if tool_id \<noteq> []
                 then key_value L (asc ''id'') (color (take 24 tool_id @ asc ''...'') ''dim'') 4
                        ''green''
                 else emit L [])
       (\<lambda>L. seq (key_value L (asc ''name'') (color name ''green'') 4 ''green'')
       (\<lambda>L. seq (key_value L (asc ''input'') [] 4 ''green'')
       (for_each (tool_call_item pr) input_data))))"

text \<open>\<open>tool_result(tool_id, content, is_error=False)\<close>; 10060 and 10003 are the cross and
  the check mark.\<close>

definition tool_result :: "AgentLogger \<Rightarrow> pystr \<Rightarrow> pystr \<Rightarrow> bool \<Rightarrow> effect" where
  "tool_result L tool_id content is_error =
     (let c = (if is_error then ''red'' else ''blue'');
          icon = (if is_error then [10060] else [10003])
      in seq (emit L [color ([10, 32, 32] @ icon @ asc '' TOOL RESULT'') c])
           (\<lambda>L. seq (key_value L (asc ''tool_use_id'') (take 24 tool_id @ asc ''...'') 4 c)
           (\<lambda>L. (let content_preview =
                        take 300 content @ (if length content > 300 then asc ''...'' else [])
                  in key_value L (asc ''content'')
                       (color ([34] @ content_preview @ [34]) ''dim'') 4 c))))"

subsection \<open>Summaries\<close>

text \<open>\<open>llm_request_summary(model, messages_count, tools_count)\<close>; \<open>now\<close> is the clock
  reading \<open>_timestamp\<close> formats.\<close>

definition llm_request_summary :: "AgentLogger \<Rightarrow> pystr \<Rightarrow> pystr \<Rightarrow> int \<Rightarrow> int \<Rightarrow> effect" where
  "llm_request_summary L now model messages_count tools_count =
     (if \<not> verbose L then emit L []
      else
        seq (emit L [color ([10, 32, 32, 128228] @ asc '' LLM REQUEST SUMMARY'') ''magenta''])
        (\<lambda>L. seq (key_value L (asc ''model'') model 4 ''magenta'')
        (\<lambda>L. seq (key_value L (asc ''messages_count'') (str_int messages_count) 4 ''magenta'')
        (\<lambda>L. seq (key_value L (asc ''tools_count'') (str_int tools_count) 4 ''magenta'')
        (\<lambda>L. key_value L (asc ''timestamp'') (timestamp now) 4 ''magenta'')))))"

text \<open>\<open>llm_response_summary(stop_reason, usage, content_blocks)\<close>.\<close>

definition llm_response_summary ::
  "(nat \<Rightarrow> bool) \<Rightarrow> AgentLogger \<Rightarrow> pystr \<Rightarrow> (pystr \<times> pyval) list \<Rightarrow> int \<Rightarrow> effect" where
  "llm_response_summary pr L stop_reason usage content_blocks =
     (if \<not> verbose L then emit L []
      else
        seq (emit L [color ([10, 32, 32, 128229] @ asc '' LLM RESPONSE SUMMARY'') ''magenta''])
        (\<lambda>L. (let stop_color = (if stop_reason = asc ''tool_use'' then ''yellow'' else ''green'')
          in seq (key_value L (asc ''stop_reason'') (color stop_reason stop_color) 4 ''magenta'')
        (\<lambda>L. seq (key_value L (asc ''content_blocks'') (str_int content_blocks) 4 ''magenta'')
        (\<lambda>L. key_value L (asc ''usage'')
               (asc ''input='' @ py_str pr (dict_get usage (asc ''input_tokens'') (PInt 0)) @
                asc '', output='' @ py_str pr (dict_get usage (asc ''output_tokens'') (PInt 0)))
               4 ''magenta'')))))"

text \<open>\<open>response_content_blocks(content_blocks)\<close>: the preview of a text block slices the
  text, takes its length and appends a string to the slice, which only a string allows;
  128230 is the package emoji.\<close>

definition content_block_line :: "(nat \<Rightarrow> bool) \<Rightarrow> nat \<times> pyval \<Rightarrow> AgentLogger \<Rightarrow> effect" where
  "content_block_line pr ib L =
     (let i = fst ib; block = snd ib;
          block_type = block_field block (asc ''type'') (PStr (asc ''unknown''))
      in if block_type = PStr (asc ''text'') then
           (let text = block_field block (asc ''text'') (PStr [])
            in try_eval L (py_slice 100 text) (\<lambda>cut.
               try_eval L (py_len text) (\<lambda>n.
               try_eval L (py_add_str cut (if n > 100 then asc ''...'' else [])) (\<lambda>text_preview.
                 key_value L (asc ''Block ['' @ str_int (int i) @ asc '']'')
                   (asc ''type='' @ py_str pr block_type @ asc '', text='' @ [34] @
                    py_str pr text_preview @ [34])
                   4 ''yellow''))))
         else if block_type = PStr (asc ''tool_use'') then
           (let name = block_field block (asc ''name'') (PStr [])
            in key_value L (asc ''Block ['' @ str_int (int i) @ asc '']'')
                 (asc ''type='' @ py_str pr block_type @ asc '', name='' @ py_str pr name)
                 4 ''yellow'')
         else emit L [])"

definition response_content_blocks :: "(nat \<Rightarrow> bool) \<Rightarrow> AgentLogger \<Rightarrow> pyval list \<Rightarrow> effect" where
  "response_content_blocks pr L content_blocks =
     (if \<not> verbose L then emit L []
      else
        seq (section_title L (asc ''Response Content Blocks'') [128230])
          (for_each (content_block_line pr) (enumerate 0 content_blocks)))"

text \<open>\<open>loop_end(reason)\<close> and \<open>user_input(query)\<close>; 127937 and 128721 are the flag and
  the stop sign.\<close>

definition loop_end :: "AgentLogger \<Rightarrow> pystr \<Rightarrow> effect" where
  "loop_end L reason = section_title L ([127937] @ asc '' LOOP END: '' @ reason) [128721]"

definition user_input :: "AgentLogger \<Rightarrow> pystr \<Rightarrow> effect" where
  "user_input L query =
     seq (separator L (asc ''USER INPUT'') [9472] 80)
       (\<lambda>L. emit L [asc ''  '' @ query])"

text \<open>
  The theorems hold for every printable-table \<open>pr\<close>. A concrete evaluation needs one:
  \<open>example_printable\<close> is Python's table on the code points below 384 (the ASCII
  characters from the space to the tilde, and from 161 on all but the soft hyphen 173) and
  knows no code point beyond, which it leaves to be escaped. The evaluations below format
  ASCII text only, where \<open>repr\<close> never consults the table.
\<close>

definition example_printable :: "nat \<Rightarrow> bool" where
  "example_printable c = ((32 \<le> c \<and> c < 127) \<or> (161 \<le> c \<and> c < 384 \<and> c \<noteq> 173))"

text \<open>The line \<open>tool_call\<close> prints for a tool id starts with the key \<open>id:\<close> as
  \<open>key_value\<close> renders it with indent 4 in green; no other line of the module starts so.\<close>

definition is_id_line :: "pystr \<Rightarrow> bool" where
  "is_id_line l = prefix (asc ''    '' @ color (asc ''id:'') ''green'' @ asc '' '') l"

text \<open>A message or tool that is a mapping, as the data model has it.\<close>

definition is_mapping :: "pyval \<Rightarrow> bool" where
  "is_mapping v = (case v of PDict d \<Rightarrow> True | _ \<Rightarrow> False)"

subsection \<open>The reduction of a message\<close>

text \<open>
  The specification reduces a content block, in either representation, to a token:
  \<open>tool_result(id=<first 16 characters of tool_use_id>...)\<close> for the variant
  \<open>tool_result\<close>, \<open>tool_use(name=<name>)\<close> for \<open>tool_use\<close>, and otherwise the type tag, or
  \<open>unknown\<close> for a block without a tag. \<open>block_field_opt\<close> reads a field of a block
  whichever way it is represented; a missing id or name counts as the empty string.
\<close>

definition block_field_opt :: "pyval \<Rightarrow> pystr \<Rightarrow> pyval option" where
  "block_field_opt b name =
     (case b of PDict d \<Rightarrow> map_of d name | PObj c r a \<Rightarrow> map_of a name | _ \<Rightarrow> None)"

definition block_string :: "pyval \<Rightarrow> pystr \<Rightarrow> pystr" where
  "block_string b name = (case block_field_opt b name of Some (PStr s) \<Rightarrow> s | _ \<Rightarrow> [])"

definition spec_block_token :: "pyval \<Rightarrow> pyval" where
  "spec_block_token b =
     (case block_field_opt b (asc ''type'') of
        None \<Rightarrow> PStr (asc ''unknown'')
      | Some t \<Rightarrow>
          if t = PStr (asc ''tool_result'')
          then PStr (asc ''tool_result(id='' @ take 16 (block_string b (asc ''tool_use_id'')) @
                     asc ''...)'')
          else if t = PStr (asc ''tool_use'')
          then PStr (asc ''tool_use(name='' @ block_string b (asc ''name'') @ asc '')'')
          else t)"

text \<open>The data model types the id of a \<open>tool_result\<close> block and the name of a
  \<open>tool_use\<close> block as strings.\<close>

definition string_or_absent :: "pyval option \<Rightarrow> bool" where
  "string_or_absent f = (case f of None \<Rightarrow> True | Some (PStr s) \<Rightarrow> True | _ \<Rightarrow> False)"

definition typed_block :: "pyval \<Rightarrow> bool" where
  "typed_block b =
     (if block_field_opt b (asc ''type'') = Some (PStr (asc ''tool_result''))
      then string_or_absent (block_field_opt b (asc ''tool_use_id''))
      else if block_field_opt b (asc ''type'') = Some (PStr (asc ''tool_use''))
      then string_or_absent (block_field_opt b (asc ''name''))
      else True)"

text \<open>
  The blocks of a content that is a sequence but not a list are read by attribute only:
  a block given by attributes has the token above, any other block, a mapping included,
  the token \<open>unknown\<close>.
\<close>

definition attribute_block_token :: "pyval \<Rightarrow> pyval" where
  "attribute_block_token b =
     (case b of PObj c r a \<Rightarrow> spec_block_token b | _ \<Rightarrow> PStr (asc ''unknown''))"

text \<open>
  A message is reduced to its role and, for a string content, the token
  \<open><text: N chars>\<close> with the character count \<open>N\<close>, for a list of blocks, the tokens of
  the blocks in order, and for a tuple of blocks the tokens of the blocks read by attribute,
  in order. \<open>previewable\<close> are the messages of the data model: a mapping with a role
  whose content (the empty string when missing) is a string, a list or a tuple of typed
  blocks.
\<close>

definition spec_message_preview :: "pyval \<Rightarrow> pyval" where
  "spec_message_preview msg =
     (case msg of
        PDict m \<Rightarrow>
          PDict [(asc ''role'', dict_get m (asc ''role'') PNone),
                 (asc ''content'',
                  (case dict_get m (asc ''content'') (PStr []) of
                     PStr s \<Rightarrow> PStr (asc ''<text: '' @ str_int (int (length s)) @ asc '' chars>'')
                   | PList blocks \<Rightarrow> PList (map spec_block_token blocks)
                   | PTuple blocks \<Rightarrow> PList (map attribute_block_token blocks)
                   | _ \<Rightarrow> PNone))]
      | _ \<Rightarrow> PNone)"

definition previewable :: "pyval \<Rightarrow> bool" where
  "previewable msg =
     (case msg of
        PDict m \<Rightarrow>
          map_of m (asc ''role'') \<noteq> None \<and>
          (case dict_get m (asc ''content'') (PStr []) of
             PStr s \<Rightarrow> True
           | PList blocks \<Rightarrow> list_all typed_block blocks
           | PTuple blocks \<Rightarrow> list_all typed_block blocks
           | _ \<Rightarrow> False)
      | _ \<Rightarrow> False)"

text \<open>Two JSON objects with the same keys and the same value under each key.\<close>

definition same_object :: "pyval \<Rightarrow> pyval \<Rightarrow> bool" where
  "same_object x y =
     (case x of
        PDict d \<Rightarrow> (case y of PDict e \<Rightarrow> map_of d = map_of e | _ \<Rightarrow> False)
      | _ \<Rightarrow> False)"

section \<open>Properties\<close>

subsection \<open>Effects of the building blocks\<close>

lemma emit_sel [simp]:
  "logger (emit L ls) = L" "printed (emit L ls) = ls" "raised (emit L ls) = None"
  by (simp_all add: emit_def)

lemma raise_sel [simp]:
  "logger (raise L e) = L" "printed (raise L e) = []" "raised (raise L e) = Some e"
  by (simp_all add: raise_def)

lemma seq_sel:
  "logger (seq e f) = (if raised e = None then logger (f (logger e)) else logger e)"
  "printed (seq e f) = (if raised e = None then printed e @ printed (f (logger e)) else printed e)"
  "raised (seq e f) = (if raised e = None then raised (f (logger e)) else raised e)"
  by (simp_all add: seq_def Let_def split: option.splits)

lemma try_eval_sel:
  "logger (try_eval L m f) = (case m of Inl e \<Rightarrow> L | Inr x \<Rightarrow> logger (f x))"
  "printed (try_eval L m f) = (case m of Inl e \<Rightarrow> [] | Inr x \<Rightarrow> printed (f x))"
  "raised (try_eval L m f) = (case m of Inl e \<Rightarrow> Some e | Inr x \<Rightarrow> raised (f x))"
  by (simp_all add: try_eval_def split: sum.splits)

text \<open>A loop whose body neither raises nor changes the logger prints what its rounds
  print, in order.\<close>

lemma for_each_quiet:
  assumes "\<And>x L. x \<in> set xs \<Longrightarrow> raised (body x L) = None \<and> logger (body x L) = L"
  shows "raised (for_each body xs L) = None \<and> logger (for_each body xs L) = L \<and>
         printed (for_each body xs L) = concat (map (\<lambda>x. printed (body x L)) xs)"
  using assms by (induction xs arbitrary: L) (simp_all add: seq_sel)

lemma for_each_logger:
  assumes "\<And>x L. logger (body x L) = L"
  shows "logger (for_each body xs L) = L"
  using assms by (induction xs arbitrary: L) (simp_all add: seq_sel)

lemma key_value_sel [simp]:
  "logger (key_value L k v i c) = L" "raised (key_value L k v i c) = None"
  "printed (key_value L k v i c) = [str_mul (asc '' '') i @ color (k @ asc '':'') c @ asc '' '' @ v]"
  by (simp_all add: key_value_def Let_def)

lemma section_title_sel [simp]:
  "logger (section_title L t i) = L" "raised (section_title L t i) = None"
  by (simp_all add: section_title_def)

lemma separator_sel [simp]:
  "logger (separator L t c w) = L" "raised (separator L t c w) = None"
  by (simp_all add: separator_def Let_def)

lemma print_structured_json_sel [simp]:
  "logger (print_structured_json L d t) = L" "raised (print_structured_json L d t) = None"
  by (simp_all add: print_structured_json_def seq_sel for_each_quiet split: sum.splits)

lemma print_code_block_sel [simp]:
  "logger (print_code_block L d) = L" "raised (print_code_block L d) = None"
  by (simp_all add: print_code_block_def seq_sel for_each_quiet split: sum.splits)

subsection \<open>The logger state\<close>

text \<open>
  Claim C9. No method changes \<open>verbose\<close> or \<open>show_raw\<close>, and \<open>loop_iteration\<close> is the only
  one that writes the iteration counter (it stores its argument when \<open>verbose\<close> is set); every
  other method leaves the logger as it found it, whatever it prints or raises.
\<close>

theorem logger_state_frame:
  "logger (separator L title char width) = L \<and>
   logger (header L text session_name) = L \<and>
   logger (section_title L text icon) = L \<and>
   logger (key_value L key val indent c) = L \<and>
   logger (json_block pr L title data indent c) = L \<and>
   logger (request_raw pr L model system messages tools max_tokens) = L \<and>
   logger (response_raw pr L response) = L \<and>
   logger (print_structured_json L data title) = L \<and>
   logger (print_code_block L data) = L \<and>
   logger (messages_snapshot pr L messages title) = L \<and>
   logger (tool_call pr L name input_data tool_id) = L \<and>
   logger (tool_result L tool_id content is_error) = L \<and>
   logger (llm_request_summary L now model messages_count tools_count) = L \<and>
   logger (llm_response_summary pr L stop_reason usage content_blocks) = L \<and>
   logger (response_content_blocks pr L blocks) = L \<and>
   logger (loop_end L reason) = L \<and>
   logger (user_input L query) = L \<and>
   verbose (logger (loop_iteration L n)) = verbose L \<and>
   show_raw (logger (loop_iteration L n)) = show_raw L \<and>
   iteration (logger (loop_iteration L n)) = (if verbose L then n else iteration L)"
  by (simp add: header_def json_block_def request_raw_def response_raw_def
      messages_snapshot_def tool_call_def tool_result_def llm_request_summary_def
      llm_response_summary_def response_content_blocks_def loop_end_def user_input_def
      loop_iteration_def seq_sel try_eval_sel Let_def for_each_logger snapshot_entry_def
      tool_call_item_def content_block_line_def
      split: sum.splits pyval.splits)

theorem logger_state_frame_witness:
  "logger (loop_end (init True True) (asc ''done'')) = init True True \<and>
   logger (tool_result (init True True) (asc ''toolu_01'') (asc ''ok'') False) = init True True \<and>
   iteration (logger (loop_iteration (init True True) 3)) = 3 \<and>
   iteration (logger (loop_iteration (init False True) 3)) = 0"
  using logger_state_frame [where L = "init True True" and n = 3 and reason = "asc ''done''"
      and tool_id = "asc ''toolu_01''" and content = "asc ''ok''" and is_error = False]
    logger_state_frame [where L = "init False True" and n = 3]
  by (simp add: init_def)

subsection \<open>Colours, indentation and the printed lines of the simple methods\<close>

lemma asc_append: "asc (a @ b) = asc a @ asc b"
  by (simp add: asc_def)

lemma color_known:
  "color t ''dim'' = 27 # asc ''[2m'' @ t @ 27 # asc ''[0m''"
  "color t ''green'' = 27 # asc ''[32m'' @ t @ 27 # asc ''[0m''"
  "color t ''red'' = 27 # asc ''[31m'' @ t @ 27 # asc ''[0m''"
  "color t ''blue'' = 27 # asc ''[34m'' @ t @ 27 # asc ''[0m''"
  "color t ''cyan'' = 27 # asc ''[36m'' @ t @ 27 # asc ''[0m''"
  "color t ''magenta'' = 27 # asc ''[35m'' @ t @ 27 # asc ''[0m''"
  "color t ''yellow'' = 27 # asc ''[33m'' @ t @ 27 # asc ''[0m''"
  "color t ''white'' = 27 # asc ''[37m'' @ t @ 27 # asc ''[0m''"
  "color t ''bold'' = 27 # asc ''[1m'' @ t @ 27 # asc ''[0m''"
  by (simp_all add: color_def COLORS_def)

lemma str_mul_space: "str_mul (asc '' '') n = replicate (nat n) 32"
  by (induction "nat n" arbitrary: n)
    (simp_all add: str_mul_def asc_def replicate_Suc [symmetric] del: replicate_Suc)

lemma replicate_4: "replicate 4 x = [x, x, x, x]"
  by (simp add: numeral_eq_Suc)

lemma indent_4: "str_mul (asc '' '') 4 = asc ''    ''"
  by (simp add: str_mul_space replicate_4) (simp add: asc_def)

lemma tool_call_item_sel [simp]:
  "logger (tool_call_item pr kv L) = L" "raised (tool_call_item pr kv L) = None"
  by (simp_all add: tool_call_item_def Let_def)

lemma tool_call_printed:
  "printed (tool_call pr L name input_data tool_id) =
     color ([10, 32, 32, 9889] @ asc '' TOOL CALL'') ''green'' #
     (if tool_id \<noteq> []
      then [asc ''    '' @ color (asc ''id:'') ''green'' @ asc '' '' @
            color (take 24 tool_id @ asc ''...'') ''dim'']
      else []) @
     [asc ''    '' @ color (asc ''name:'') ''green'' @ asc '' '' @ color name ''green'',
      asc ''    '' @ color (asc ''input:'') ''green'' @ asc '' ''] @
     concat (map (\<lambda>kv. printed (tool_call_item pr kv L)) input_data)"
  by (simp add: tool_call_def seq_sel for_each_quiet indent_4 asc_append [symmetric])

lemma tool_call_raised: "raised (tool_call pr L name input_data tool_id) = None"
  by (simp add: tool_call_def seq_sel for_each_quiet)

lemma tool_result_printed:
  "printed (tool_result L tool_id content is_error) =
    [color ([10, 32, 32] @ (if is_error then [10060] else [10003]) @ asc '' TOOL RESULT'')
       (if is_error then ''red'' else ''blue''),
     asc ''    '' @ color (asc ''tool_use_id:'') (if is_error then ''red'' else ''blue'') @ asc '' '' @
       take 24 tool_id @ asc ''...'',
     asc ''    '' @ color (asc ''content:'') (if is_error then ''red'' else ''blue'') @ asc '' '' @
       color ([34] @ take 300 content @ (if length content > 300 then asc ''...'' else []) @ [34])
         ''dim'']"
  by (simp add: tool_result_def seq_sel Let_def indent_4 asc_append [symmetric])

lemma tool_result_raised: "raised (tool_result L tool_id content is_error) = None"
  by (simp add: tool_result_def seq_sel Let_def)

lemma header_printed:
  "printed (header L text session_name) =
     color (10 # replicate 80 9552) ''cyan'' #
     (if session_name \<noteq> [] then [color (asc ''  ['' @ session_name @ asc '']'') ''dim''] else []) @
     [color (asc ''  '' @ text) ''bold'', color (replicate 80 9552) ''cyan'']"
  by (simp add: header_def seq_sel)

lemma user_input_printed:
  "printed (user_input L query) = printed (separator L (asc ''USER INPUT'') [9472] 80) @ [asc ''  '' @ query]"
  by (simp add: user_input_def seq_sel)

lemma loop_end_printed:
  "printed (loop_end L reason) =
     (if verbose L then [color (10 # 128721 # asc '' '' @ 127937 # asc '' LOOP END: '' @ reason) ''cyan'']
      else [])"
  by (simp add: loop_end_def section_title_def)

subsection \<open>The two switches\<close>

text \<open>
  Claim C2, as amended. With \<open>verbose\<close> off, \<open>section\<close>, \<open>json_block\<close>, \<open>loop_iteration\<close>,
  \<open>messages_snapshot\<close>, \<open>llm_request_summary\<close>, \<open>llm_response_summary\<close>,
  \<open>response_content_blocks\<close> and \<open>separator\<close> print nothing, and neither does \<open>loop_end\<close>,
  which prints through \<open>section\<close>; \<open>header\<close>, \<open>tool_call\<close>, \<open>tool_result\<close> and
  \<open>user_input\<close> still print at least one line, for every input.
\<close>

theorem verbose_off:
  assumes "\<not> verbose L"
  shows "printed (section_title L heading icon) = [] \<and>
         printed (json_block pr L title data indent c) = [] \<and>
         printed (loop_iteration L n) = [] \<and>
         printed (messages_snapshot pr L messages title) = [] \<and>
         printed (llm_request_summary L now model messages_count tools_count) = [] \<and>
         printed (llm_response_summary pr L stop_reason usage content_blocks) = [] \<and>
         printed (response_content_blocks pr L blocks) = [] \<and>
         printed (separator L title char width) = [] \<and>
         printed (loop_end L reason) = [] \<and>
         printed (header L heading session_name) \<noteq> [] \<and>
         printed (tool_call pr L name input_data tool_id) \<noteq> [] \<and>
         printed (tool_result L tool_id content is_error) \<noteq> [] \<and>
         printed (user_input L query) \<noteq> []"
proof -
  have gated:
    "printed (section_title L heading icon) = []"
    "printed (json_block pr L title data indent c) = []"
    "printed (loop_iteration L n) = []"
    "printed (messages_snapshot pr L messages title) = []"
    "printed (llm_request_summary L now model messages_count tools_count) = []"
    "printed (llm_response_summary pr L stop_reason usage content_blocks) = []"
    "printed (response_content_blocks pr L blocks) = []"
    "printed (separator L title char width) = []"
    using assms
    by (simp_all add: section_title_def json_block_def loop_iteration_def messages_snapshot_def
        llm_request_summary_def llm_response_summary_def response_content_blocks_def
        separator_def)
  have through_section: "printed (loop_end L reason) = []"
    using assms by (simp add: loop_end_printed)
  have always:
    "printed (header L heading session_name) \<noteq> []"
    "printed (tool_call pr L name input_data tool_id) \<noteq> []"
    "printed (tool_result L tool_id content is_error) \<noteq> []"
    "printed (user_input L query) \<noteq> []"
    by (simp_all add: header_printed tool_call_printed tool_result_printed user_input_printed)
  from gated through_section always show ?thesis by simp
qed

theorem verbose_off_witness:
  "printed (section_title (init False True) (asc ''Plan'') [9654]) = [] \<and>
   printed (loop_iteration (init False True) 1) = [] \<and>
   printed (loop_end (init False True) (asc ''done'')) = [] \<and>
   printed (user_input (init False True) (asc ''hello'')) \<noteq> []"
proof -
  have quiet: "\<not> verbose (init False True)"
    by (simp add: init_def)
  show ?thesis
    using verbose_off [OF quiet, where heading = "asc ''Plan''" and icon = "[9654]" and n = 1
        and reason = "asc ''done''" and query = "asc ''hello''"]
    by simp
qed

text \<open>
  Claim C2 as the specification states it has \<open>loop_end\<close> among the methods that still print
  with \<open>verbose\<close> off. It prints nothing there.
\<close>

theorem loop_end_verbose_off_counterexample:
  "printed (loop_end \<lparr>verbose = False, show_raw = True, iteration = 0\<rparr> (asc ''done'')) = []"
  by (simp add: loop_end_def section_title_def)

text \<open>
  Claim C5. With \<open>show_raw\<close> off, \<open>request_raw\<close> and \<open>response_raw\<close> return at once and
  print nothing, for every input and whatever \<open>verbose\<close> is, while \<open>tool_call\<close>,
  \<open>tool_result\<close> and \<open>user_input\<close> print at least one line, and so does \<open>loop_end\<close>
  with \<open>verbose\<close> on, its default.
\<close>

theorem show_raw_off:
  assumes "\<not> show_raw L"
  shows "printed (request_raw pr L model system messages tools max_tokens) = [] \<and>
         raised (request_raw pr L model system messages tools max_tokens) = None \<and>
         printed (response_raw pr L response) = [] \<and>
         raised (response_raw pr L response) = None \<and>
         printed (tool_call pr L name input_data tool_id) \<noteq> [] \<and>
         printed (tool_result L tool_id content is_error) \<noteq> [] \<and>
         (verbose L \<longrightarrow> printed (loop_end L reason) \<noteq> []) \<and>
         printed (user_input L query) \<noteq> []"
  using assms
  by (simp add: request_raw_def response_raw_def tool_call_printed tool_result_printed
      loop_end_printed user_input_printed)

theorem show_raw_off_witness:
  "printed (request_raw example_printable (init True False) (asc ''m'') (asc ''be brief'')
      [PDict [(asc ''content'', PStr (asc ''hi''))]] [] 8000) = [] \<and>
   printed (response_raw example_printable (init True False) PNone) = [] \<and>
   printed (loop_end (init True False) (asc ''done'')) \<noteq> [] \<and>
   printed (request_raw example_printable (init False False) (asc ''m'') (asc ''be brief'')
      [PDict [(asc ''content'', PStr (asc ''hi''))]] [] 8000) = [] \<and>
   printed (response_raw example_printable (init False False) PNone) = [] \<and>
   printed (user_input (init False False) (asc ''hello'')) \<noteq> []"
proof -
  have off: "\<not> show_raw (init True False)" and on: "verbose (init True False)"
    and both_off: "\<not> show_raw (init False False)"
    by (simp_all add: init_def)
  show ?thesis
    using show_raw_off [OF off, where pr = example_printable and model = "asc ''m''"
        and system = "asc ''be brief''" and messages = "[PDict [(asc ''content'', PStr (asc ''hi''))]]"
        and tools = "[]" and max_tokens = 8000 and response = PNone and reason = "asc ''done''"]
      show_raw_off [OF both_off, where pr = example_printable and model = "asc ''m''"
        and system = "asc ''be brief''" and messages = "[PDict [(asc ''content'', PStr (asc ''hi''))]]"
        and tools = "[]" and max_tokens = 8000 and response = PNone and query = "asc ''hello''"]
    by (simp add: on)
qed

subsection \<open>Tool ids\<close>

text \<open>
  Claim C7. The id \<open>tool_call\<close> shows (when the id is not empty) and the id \<open>tool_result\<close>
  shows are the first 24 characters of the id followed by \<open>...\<close>, on the second line either
  prints; neither call raises, whatever the length of the id, and an id of at most 24
  characters is shown whole before the dots.
\<close>

theorem id_display_24:
  "(tool_id \<noteq> [] \<longrightarrow>
      printed (tool_call pr L name input_data tool_id) ! 1 =
        asc ''    '' @ color (asc ''id:'') ''green'' @ asc '' '' @
        color (take 24 tool_id @ asc ''...'') ''dim'') \<and>
   raised (tool_call pr L name input_data tool_id) = None \<and>
   printed (tool_result L tool_id content is_error) ! 1 =
     asc ''    '' @ color (asc ''tool_use_id:'') (if is_error then ''red'' else ''blue'') @
     asc '' '' @ take 24 tool_id @ asc ''...'' \<and>
   raised (tool_result L tool_id content is_error) = None \<and>
   (length tool_id \<le> 24 \<longrightarrow> take 24 tool_id @ asc ''...'' = tool_id @ asc ''...'')"
  by (simp add: tool_call_printed tool_call_raised tool_result_printed tool_result_raised)

theorem id_display_24_witness:
  "printed (tool_call example_printable (init True True) (asc ''read_file'') [] (asc ''toolu_01'')) ! 1 =
     asc ''    '' @ color (asc ''id:'') ''green'' @ asc '' '' @ color (asc ''toolu_01...'') ''dim'' \<and>
   printed (tool_result (init True True) (asc ''toolu_01'') (asc ''ok'') False) ! 1 =
     asc ''    '' @ color (asc ''tool_use_id:'') ''blue'' @ asc '' toolu_01...''"
proof -
  have short: "take 24 (asc ''toolu_01'') @ asc ''...'' = asc ''toolu_01...''"
    and given: "asc ''toolu_01'' \<noteq> []"
    and tail: "asc '' '' @ asc ''toolu_01...'' = asc '' toolu_01...''"
    by (simp_all add: asc_def)
  show ?thesis
    using id_display_24 [where tool_id = "asc ''toolu_01''" and pr = example_printable
        and L = "init True True" and name = "asc ''read_file''" and input_data = "[]"
        and content = "asc ''ok''" and is_error = False]
    by (simp add: short given tail)
qed

lemma item_line_not_id: "\<not> is_id_line (color t ''dim'')"
  by (simp add: is_id_line_def color_known asc_def)

lemma item_lines_not_id:
  "filter is_id_line (concat (map (\<lambda>kv. printed (tool_call_item pr kv L)) xs)) = []"
  by (induction xs) (simp_all add: tool_call_item_def Let_def item_line_not_id)

lemma item_lines_all_other:
  "filter (\<lambda>l. \<not> is_id_line l) (concat (map (\<lambda>kv. printed (tool_call_item pr kv L)) xs)) =
   concat (map (\<lambda>kv. printed (tool_call_item pr kv L)) xs)"
  by (induction xs) (simp_all add: tool_call_item_def Let_def item_line_not_id)

text \<open>
  Claim C10. \<open>tool_call\<close> prints no id line when the id is the empty string, which is also
  what the parameter defaults to when the caller passes none, and exactly one id line when the
  id is not empty; its other lines do not depend on the id.
\<close>

theorem tool_call_id_line:
  "filter is_id_line (printed (tool_call pr L name input_data tool_id)) =
     (if tool_id = [] then []
      else [asc ''    '' @ color (asc ''id:'') ''green'' @ asc '' '' @
            color (take 24 tool_id @ asc ''...'') ''dim'']) \<and>
   filter (\<lambda>l. \<not> is_id_line l) (printed (tool_call pr L name input_data tool_id)) =
     printed (tool_call pr L name input_data [])"
proof -
  have first: "\<not> is_id_line (color t ''green'')" for t
    by (simp add: is_id_line_def color_known asc_def)
  have name: "\<not> is_id_line (asc ''    '' @ color (asc ''name:'') ''green'' @ v)" for v
    by (simp add: is_id_line_def color_known asc_def)
  have inp: "\<not> is_id_line (asc ''    '' @ color (asc ''input:'') ''green'' @ v)" for v
    by (simp add: is_id_line_def color_known asc_def)
  have idl: "is_id_line (asc ''    '' @ color (asc ''id:'') ''green'' @ asc '' '' @ v)" for v
    by (simp add: is_id_line_def)
  show ?thesis
    by (simp add: tool_call_printed first name inp idl item_lines_not_id item_lines_all_other)
qed

theorem tool_call_id_line_witness:
  "filter is_id_line
     (printed (tool_call example_printable (init True True) (asc ''read_file'')
        [(asc ''path'', PStr (asc ''/tmp/x.txt''))] [])) = [] \<and>
   length (filter is_id_line
     (printed (tool_call example_printable (init True True) (asc ''read_file'')
        [(asc ''path'', PStr (asc ''/tmp/x.txt''))] (asc ''toolu_01'')))) = 1"
proof -
  have given: "asc ''toolu_01'' \<noteq> []"
    by (simp add: asc_def)
  show ?thesis
    using tool_call_id_line [where tool_id = "[]" and pr = example_printable
        and L = "init True True" and name = "asc ''read_file''"
        and input_data = "[(asc ''path'', PStr (asc ''/tmp/x.txt''))]"]
      tool_call_id_line [where tool_id = "asc ''toolu_01''" and pr = example_printable
        and L = "init True True" and name = "asc ''read_file''"
        and input_data = "[(asc ''path'', PStr (asc ''/tmp/x.txt''))]"]
    by (simp add: given)
qed

subsection \<open>Missing fields\<close>

text \<open>
  Claim C1. The specification has every renderer recover from a missing field with a default.
  \<open>request_raw\<close> reads \<open>msg["role"]\<close>, \<open>t["name"]\<close> and \<open>t["description"]\<close> by
  subscript, so a message without a role and a tool without a name or a description make it
  raise \<open>KeyError\<close> after the banner; \<open>_serialize_messages\<close> does the same for the role.
  \<open>messages_snapshot\<close> reads the role with \<open>get\<close> and a default, and returns normally on
  the same message.
\<close>

theorem request_raw_raises:
  "raised (request_raw example_printable (init True True) (asc ''m'') (asc ''s'')
      [PDict [(asc ''content'', PStr (asc ''hi''))]] [] 8000) = Some (KeyError (asc ''role'')) \<and>
   raised (request_raw example_printable (init True True) (asc ''m'') (asc ''s'') []
      [PDict [(asc ''description'', PStr (asc ''reads a file''))]] 8000) =
     Some (KeyError (asc ''name'')) \<and>
   raised (request_raw example_printable (init True True) (asc ''m'') (asc ''s'') []
      [PDict [(asc ''name'', PStr (asc ''read_file''))]] 8000) =
     Some (KeyError (asc ''description'')) \<and>
   serialize_messages example_printable [PDict [(asc ''content'', PStr (asc ''hi''))]] =
     Inl (KeyError (asc ''role'')) \<and>
   raised (messages_snapshot example_printable (init True True)
      [PDict [(asc ''content'', PStr (asc ''hi''))]] (asc ''MESSAGES SNAPSHOT'')) = None"
  by (simp add: request_raw_def init_def seq_sel try_eval_sel request_data_def message_entry_def
      tool_entry_def serialize_messages_def serialize_message_def messages_snapshot_def
      snapshot_entry_def py_item_def py_get_def dict_item_def dict_get_def ebind_def asc_def
      enumerate_eq_zip Let_def)

subsection \<open>The messages snapshot\<close>

lemma snapshot_entry_quiet:
  "is_mapping msg \<Longrightarrow>
     raised (snapshot_entry pr (i, msg) L) = None \<and> logger (snapshot_entry pr (i, msg) L) = L"
  by (cases msg)
    (simp_all add: is_mapping_def snapshot_entry_def py_get_def try_eval_sel Let_def
      split: pyval.splits)

lemma messages_snapshot_printed:
  assumes "verbose L" and "list_all is_mapping messages"
  shows "raised (messages_snapshot pr L messages title) = None \<and>
         printed (messages_snapshot pr L messages title) =
           [color ([10, 32, 32, 128203, 32] @ title) ''blue'',
            color (asc ''  Total messages: '' @ str_int (int (length messages))) ''dim''] @
           concat (map (\<lambda>im. printed (snapshot_entry pr im L)) (enumerate 0 messages))"
proof -
  have quiet: "raised (snapshot_entry pr im L') = None \<and> logger (snapshot_entry pr im L') = L'"
    if "im \<in> set (enumerate 0 messages)" for im L'
  proof -
    obtain i msg where im: "im = (i, msg)" by (cases im)
    with that have "msg \<in> set messages" by (auto simp: in_set_enumerate_eq)
    with assms(2) have "is_mapping msg" by (simp add: list_all_iff)
    with im show ?thesis by (simp add: snapshot_entry_quiet)
  qed
  from for_each_quiet [of "enumerate 0 messages" "snapshot_entry pr" L, OF quiet] assms(1)
  show ?thesis by (simp add: messages_snapshot_def seq_sel)
qed

text \<open>
  Claim C8. In a snapshot of messages that are mappings, the line of a message with a string
  content (the empty string when the content is missing) shows the content whole when it has
  at most 60 characters, and its first 60 characters followed by \<open>...\<close> when it is longer.
\<close>

theorem snapshot_preview_60:
  assumes "verbose L" and "list_all is_mapping messages"
    and "i < length messages" and "messages ! i = PDict m"
    and "dict_get m (asc ''content'') (PStr []) = PStr c"
  shows "raised (messages_snapshot pr L messages title) = None \<and>
         asc ''    ['' @ str_int (int i) @ asc ''] '' @
         color (py_str pr (dict_get m (asc ''role'') (PStr (asc ''unknown''))))
           (role_color (dict_get m (asc ''role'') (PStr (asc ''unknown'')))) @
         asc '': '' @
         color (if length c > 60 then take 60 c @ asc ''...'' else c) ''dim''
         \<in> set (printed (messages_snapshot pr L messages title))"
proof -
  have entry: "(i, messages ! i) \<in> set (enumerate 0 messages)"
    using assms(3) by (simp add: in_set_enumerate_eq)
  have line: "printed (snapshot_entry pr (i, messages ! i) L) =
      [asc ''    ['' @ str_int (int i) @ asc ''] '' @
       color (py_str pr (dict_get m (asc ''role'') (PStr (asc ''unknown''))))
         (role_color (dict_get m (asc ''role'') (PStr (asc ''unknown'')))) @
       asc '': '' @
       color (if length c > 60 then take 60 c @ asc ''...'' else c) ''dim'']"
    using assms(4,5) by (simp add: snapshot_entry_def py_get_def try_eval_sel Let_def)
  from entry line have
    "\<exists>im \<in> set (enumerate 0 messages).
       asc ''    ['' @ str_int (int i) @ asc ''] '' @
       color (py_str pr (dict_get m (asc ''role'') (PStr (asc ''unknown''))))
         (role_color (dict_get m (asc ''role'') (PStr (asc ''unknown'')))) @
       asc '': '' @
       color (if length c > 60 then take 60 c @ asc ''...'' else c) ''dim''
       \<in> set (printed (snapshot_entry pr im L))"
    by (intro bexI [of _ "(i, messages ! i)"]) simp_all
  with messages_snapshot_printed [OF assms(1,2), of pr title] show ?thesis
    by simp
qed

theorem snapshot_preview_60_witness:
  "asc ''    [0] '' @ color (asc ''user'') ''green'' @ asc '': '' @
     color (replicate 60 97 @ asc ''...'') ''dim''
   \<in> set (printed (messages_snapshot example_printable (init True True)
       [PDict [(asc ''role'', PStr (asc ''user'')), (asc ''content'', PStr (replicate 61 97))]]
       (asc ''MESSAGES SNAPSHOT''))) \<and>
   asc ''    [0] '' @ color (asc ''user'') ''green'' @ asc '': '' @ color (asc ''hi'') ''dim''
   \<in> set (printed (messages_snapshot example_printable (init True True)
       [PDict [(asc ''role'', PStr (asc ''user'')), (asc ''content'', PStr (asc ''hi''))]]
       (asc ''MESSAGES SNAPSHOT'')))"
proof -
  have on: "verbose (init True True)"
    by (simp add: init_def)
  have maps: "list_all is_mapping [PDict m]" for m
    by (simp add: is_mapping_def)
  have long: "dict_get [(asc ''role'', PStr (asc ''user'')), (asc ''content'', PStr (replicate 61 97))]
      (asc ''content'') (PStr []) = PStr (replicate 61 97)"
    and short: "dict_get [(asc ''role'', PStr (asc ''user'')), (asc ''content'', PStr (asc ''hi''))]
      (asc ''content'') (PStr []) = PStr (asc ''hi'')"
    and role: "dict_get [(asc ''role'', PStr (asc ''user'')), (asc ''content'', c)]
      (asc ''role'') (PStr (asc ''unknown'')) = PStr (asc ''user'')" for c
    by (simp_all add: dict_get_def asc_def)
  have index: "asc ''    ['' @ str_int 0 @ asc ''] '' @ x = asc ''    [0] '' @ x" for x
    by (simp add: str_int_def digits10.simps asc_def)
  have len: "\<not> 60 < length (asc ''hi'')"
    by (simp add: asc_def)
  show ?thesis
    using snapshot_preview_60 [OF on maps _ _ long, where i = 0 and pr = example_printable
        and title = "asc ''MESSAGES SNAPSHOT''"]
      snapshot_preview_60 [OF on maps _ _ short, where i = 0 and pr = example_printable
        and title = "asc ''MESSAGES SNAPSHOT''"]
    by (simp add: role index len role_color_def py_str_def) 
qed

subsection \<open>The serializer\<close>

lemma serialize_content_single:
  "serialize_content pr (PList [b]) =
     (case serialize_block pr b of Inl e \<Rightarrow> Inl e | Inr x \<Rightarrow> Inr [x])"
  by (simp add: serialize_content_def py_iter_def ebind_def split: sum.splits)

lemma map_of_two:
  assumes "fst ` set a = {k1, k2}" and "map_of a k1 = Some v1" and "map_of a k2 = Some v2"
  shows "map_of [(k1, v1), (k2, v2)] = map_of a"
proof
  fix k
  show "map_of [(k1, v1), (k2, v2)] k = map_of a k"
  proof (cases "k = k1 \<or> k = k2")
    case True
    with assms(2,3) show ?thesis by auto
  next
    case False
    with assms(1) have "k \<notin> fst ` set a" by simp
    then have "map_of a k = None" by (simp add: map_of_eq_None_iff)
    with False show ?thesis by simp
  qed
qed

lemma map_of_four:
  assumes "fst ` set a = {k1, k2, k3, k4}"
    and "map_of a k1 = Some v1" and "map_of a k2 = Some v2"
    and "map_of a k3 = Some v3" and "map_of a k4 = Some v4"
  shows "map_of [(k1, v1), (k2, v2), (k3, v3), (k4, v4)] = map_of a"
proof
  fix k
  show "map_of [(k1, v1), (k2, v2), (k3, v3), (k4, v4)] k = map_of a k"
  proof (cases "k \<in> {k1, k2, k3, k4}")
    case True
    with assms(2-5) show ?thesis by auto
  next
    case False
    with assms(1) have "k \<notin> fst ` set a" by simp
    then have "map_of a k = None" by (simp add: map_of_eq_None_iff)
    with False show ?thesis by simp
  qed
qed

text \<open>
  Claim C3, as amended. A text block given by attributes with exactly the fields \<open>type\<close> and
  \<open>text\<close>, and a \<open>tool_use\<close> block with exactly \<open>type\<close>, \<open>id\<close>, \<open>name\<close> and a
  mapping \<open>input\<close>, serialize to the same keys and values as the same block given as a
  mapping, which passes through unchanged. A block of any other variant given by attributes,
  \<open>tool_result\<close> included, is reduced to its type tag alone.
\<close>

theorem serialize_attribute_form:
  "(map_of a (asc ''type'') = Some (PStr (asc ''text'')) \<and>
    fst ` set a = {asc ''type'', asc ''text''} \<longrightarrow>
      (case serialize_content pr (PList [PObj c r a]) of
         Inr [x] \<Rightarrow> serialize_content pr (PList [PDict a]) = Inr [PDict a] \<and> same_object x (PDict a)
       | _ \<Rightarrow> False)) \<and>
   (map_of a (asc ''type'') = Some (PStr (asc ''tool_use'')) \<and>
    fst ` set a = {asc ''type'', asc ''id'', asc ''name'', asc ''input''} \<and>
    map_of a (asc ''input'') = Some (PDict i) \<longrightarrow>
      (case serialize_content pr (PList [PObj c r a]) of
         Inr [x] \<Rightarrow> serialize_content pr (PList [PDict a]) = Inr [PDict a] \<and> same_object x (PDict a)
       | _ \<Rightarrow> False)) \<and>
   (py_getattr (PObj c r a) (asc ''type'') PNone = t \<and>
    t \<noteq> PStr (asc ''text'') \<and> t \<noteq> PStr (asc ''tool_use'') \<longrightarrow>
      serialize_content pr (PList [PObj c r a]) = Inr [PDict [(asc ''type'', PStr (py_str pr t))]])"
proof (intro conjI impI)
  assume is_text: "map_of a (asc ''type'') = Some (PStr (asc ''text'')) \<and>
    fst ` set a = {asc ''type'', asc ''text''}"
  from is_text have "asc ''text'' \<in> fst ` set a" by simp
  then obtain v where v: "map_of a (asc ''text'') = Some v"
    by (metis map_of_eq_None_iff not_Some_eq)
  have "map_of [(asc ''type'', PStr (asc ''text'')), (asc ''text'', v)] = map_of a"
    using is_text v by (intro map_of_two) simp_all
  with is_text v show "case serialize_content pr (PList [PObj c r a]) of
         Inr [x] \<Rightarrow> serialize_content pr (PList [PDict a]) = Inr [PDict a] \<and> same_object x (PDict a)
       | _ \<Rightarrow> False"
    by (simp add: serialize_content_single serialize_block_def py_getattr_def same_object_def)
next
  assume use: "map_of a (asc ''type'') = Some (PStr (asc ''tool_use'')) \<and>
    fst ` set a = {asc ''type'', asc ''id'', asc ''name'', asc ''input''} \<and>
    map_of a (asc ''input'') = Some (PDict i)"
  then have "asc ''id'' \<in> fst ` set a" and "asc ''name'' \<in> fst ` set a" by simp_all
  then obtain vi vn where v: "map_of a (asc ''id'') = Some vi" "map_of a (asc ''name'') = Some vn"
    by (metis map_of_eq_None_iff not_Some_eq)
  have "map_of [(asc ''type'', PStr (asc ''tool_use'')), (asc ''id'', vi), (asc ''name'', vn),
                (asc ''input'', PDict i)] = map_of a"
    using use v by (intro map_of_four) simp_all
  moreover have "PStr (asc ''tool_use'') \<noteq> PStr (asc ''text'')"
    by (simp add: asc_def)
  ultimately show "case serialize_content pr (PList [PObj c r a]) of
         Inr [x] \<Rightarrow> serialize_content pr (PList [PDict a]) = Inr [PDict a] \<and> same_object x (PDict a)
       | _ \<Rightarrow> False"
    using use v
    by (simp add: serialize_content_single serialize_block_def py_getattr_def same_object_def
        py_dict_def ebind_def)
next
  assume "py_getattr (PObj c r a) (asc ''type'') PNone = t \<and>
    t \<noteq> PStr (asc ''text'') \<and> t \<noteq> PStr (asc ''tool_use'')"
  then show "serialize_content pr (PList [PObj c r a]) =
      Inr [PDict [(asc ''type'', PStr (py_str pr t))]]"
    by (auto simp: serialize_content_single serialize_block_def Let_def)
qed

theorem serialize_attribute_form_witness:
  "(case serialize_content example_printable
       (PList [PObj (asc ''TextBlock'') (asc ''TextBlock()'')
         [(asc ''type'', PStr (asc ''text'')), (asc ''text'', PStr (asc ''hi''))]]) of
      Inr [x] \<Rightarrow>
        serialize_content example_printable
          (PList [PDict [(asc ''type'', PStr (asc ''text'')), (asc ''text'', PStr (asc ''hi''))]]) =
          Inr [PDict [(asc ''type'', PStr (asc ''text'')), (asc ''text'', PStr (asc ''hi''))]] \<and>
        same_object x (PDict [(asc ''type'', PStr (asc ''text'')), (asc ''text'', PStr (asc ''hi''))])
    | _ \<Rightarrow> False)"
proof -
  have given: "map_of [(asc ''type'', PStr (asc ''text'')), (asc ''text'', PStr (asc ''hi''))]
      (asc ''type'') = Some (PStr (asc ''text'')) \<and>
    fst ` set [(asc ''type'', PStr (asc ''text'')), (asc ''text'', PStr (asc ''hi''))] =
      {asc ''type'', asc ''text''}"
    by simp
  from serialize_attribute_form [where a = "[(asc ''type'', PStr (asc ''text'')), (asc ''text'', PStr (asc ''hi''))]"
      and pr = example_printable and c = "asc ''TextBlock''" and r = "asc ''TextBlock()''"] given
  show ?thesis by blast
qed

text \<open>
  Claim C3 as the specification states it covers the variant \<open>tool_result\<close>. A
  \<open>tool_result\<close> block given by attributes loses its \<open>tool_use_id\<close> and \<open>content\<close>; the
  same block given as a mapping keeps them.
\<close>

theorem serialize_attribute_form_counterexample:
  "serialize_content example_printable
     (PList [PObj (asc ''ToolResult'') (asc ''ToolResult()'')
        [(asc ''type'', PStr (asc ''tool_result'')), (asc ''tool_use_id'', PStr (asc ''toolu_01'')),
         (asc ''content'', PStr (asc ''ok''))]]) =
     Inr [PDict [(asc ''type'', PStr (asc ''tool_result''))]] \<and>
   serialize_content example_printable
     (PList [PDict
        [(asc ''type'', PStr (asc ''tool_result'')), (asc ''tool_use_id'', PStr (asc ''toolu_01'')),
         (asc ''content'', PStr (asc ''ok''))]]) =
     Inr [PDict
        [(asc ''type'', PStr (asc ''tool_result'')), (asc ''tool_use_id'', PStr (asc ''toolu_01'')),
         (asc ''content'', PStr (asc ''ok''))]] \<and>
   \<not> same_object (PDict [(asc ''type'', PStr (asc ''tool_result''))])
     (PDict
        [(asc ''type'', PStr (asc ''tool_result'')), (asc ''tool_use_id'', PStr (asc ''toolu_01'')),
         (asc ''content'', PStr (asc ''ok''))])"
proof -
  have "map_of [(asc ''type'', PStr (asc ''tool_result''))] (asc ''content'') \<noteq>
    map_of [(asc ''type'', PStr (asc ''tool_result'')), (asc ''tool_use_id'', PStr (asc ''toolu_01'')),
         (asc ''content'', PStr (asc ''ok''))] (asc ''content'')"
    by (simp add: asc_def)
  then have "map_of [(asc ''type'', PStr (asc ''tool_result''))] \<noteq>
    map_of [(asc ''type'', PStr (asc ''tool_result'')), (asc ''tool_use_id'', PStr (asc ''toolu_01'')),
         (asc ''content'', PStr (asc ''ok''))]"
    by metis
  then show ?thesis
    by (simp add: serialize_content_single serialize_block_def py_getattr_def same_object_def
        py_str_def asc_def)
qed

subsection \<open>A system prompt of 150 characters\<close>

lemma split_nl_app: "10 \<notin> set a \<Longrightarrow> split_nl (a @ 10 # rest) = a # split_nl rest"
  by (induction a) simp_all

lemma split_nl_lines:
  "\<forall>l \<in> set ls. 10 \<notin> set l \<Longrightarrow>
     split_nl (concat (map (\<lambda>l. l @ [10]) ls) @ rest) = ls @ split_nl rest"
  by (induction ls) (simp_all add: split_nl_app)

lemma split_nl_plain: "10 \<notin> set a \<Longrightarrow> split_nl a = [a]"
  by (induction a) simp_all

lemma hex_digit_ge: "48 \<le> hex_digit d"
  by (simp add: hex_digit_def)

lemma hex_fixed_no_nl: "10 \<notin> set (hex_fixed w n)"
proof
  assume "10 \<in> set (hex_fixed w n)"
  then obtain i where "hex_digit (n div 16 ^ i mod 16) = 10"
    by (auto simp: hex_fixed_def)
  with hex_digit_ge [of "n div 16 ^ i mod 16"] show False by simp
qed

lemma json_escape_char_no_nl: "10 \<notin> set (json_escape_char c)"
  by (simp add: json_escape_char_def hex_fixed_no_nl)

lemma json_string_no_nl: "10 \<notin> set (json_string s)"
  by (simp add: json_string_def json_escape_char_no_nl)

lemma digits10_no_nl: "10 \<notin> set (digits10 n)"
  by (induction n rule: digits10.induct) (subst digits10.simps, simp)

lemma str_int_no_nl: "10 \<notin> set (str_int n)"
  by (simp add: str_int_def digits10_no_nl)

lemma json_escape_char_length: "1 \<le> length (json_escape_char c)"
  by (simp add: json_escape_char_def)

lemma json_escape_length: "length s \<le> length (concat (map json_escape_char s))"
proof (induction s)
  case (Cons c s)
  with json_escape_char_length [of c] show ?case by simp
qed simp

lemma concat_map_single: "concat (map (\<lambda>x. [f x]) xs) = map f xs"
  by (induction xs) simp_all

lemma print_structured_json_printed:
  "json_dumps 4 d = Inr t \<Longrightarrow>
     printed (print_structured_json L d title) =
       color ([10, 32, 32, 128202, 32] @ title @ asc '':'') ''cyan'' #
       map (\<lambda>line. color (asc ''    '' @ line) ''dim'') (split_nl t)"
  by (simp add: print_structured_json_def seq_sel for_each_quiet concat_map_single)

lemma print_code_block_printed:
  "json_dumps 2 d = Inr t \<Longrightarrow>
     printed (print_code_block L d) =
       color (asc ''  '' @ [9484] @ replicate 76 9472 @ [9488]) ''dim'' #
       map code_block_line (split_nl t) @
       [color (asc ''  '' @ [9492] @ replicate 76 9472 @ [9496]) ''dim'']"
  by (simp add: print_code_block_def seq_sel for_each_quiet concat_map_single)

lemma request_raw_printed:
  assumes "show_raw L"
    and "request_data pr model system messages tools max_tokens = Inr d"
    and "serialize_messages pr messages = Inr sm"
  shows "printed (request_raw pr L model system messages tools max_tokens) =
     [color (10 # [9484] @ replicate 78 9472 @ [9488]) ''magenta'',
      color ([9474, 32, 32, 128228] @ asc '' RAW API REQUEST'' @ replicate 57 32 @ [9474])
        ''magenta'',
      color ([9492] @ replicate 78 9472 @ [9496]) ''magenta''] @
     printed (print_structured_json L d (asc ''Request Structure'')) @
     [color ([10, 32, 32, 128196] @ asc '' Full Request JSON (copy-paste ready):'') ''cyan''] @
     printed (print_code_block L
       (PDict [(asc ''model'', PStr model), (asc ''max_tokens'', PInt max_tokens),
               (asc ''system'', PStr system), (asc ''tools'', PList tools),
               (asc ''messages'', PList sm)]))"
  using assms by (simp add: request_raw_def seq_sel try_eval_sel)

text \<open>The first four lines of a request dictionary in JSON.\<close>

lemma request_json_lines:
  "\<exists>rest. split_nl (json_text ind 0
      (PDict [(asc ''model'', PStr model), (asc ''max_tokens'', PInt max_tokens),
              (asc ''system'', PStr sys), (asc ''tools'', tv), (asc ''messages'', mv)])) =
     [asc ''{'',
      replicate ind 32 @ json_string (asc ''model'') @ asc '': '' @ json_string model @ asc '','',
      replicate ind 32 @ json_string (asc ''max_tokens'') @ asc '': '' @ str_int max_tokens @ asc '','',
      replicate ind 32 @ json_string (asc ''system'') @ asc '': '' @ json_string sys @ asc '',''] @ rest"
proof -
  let ?ls = "[asc ''{'',
      replicate ind 32 @ json_string (asc ''model'') @ asc '': '' @ json_string model @ asc '','',
      replicate ind 32 @ json_string (asc ''max_tokens'') @ asc '': '' @ str_int max_tokens @ asc '','',
      replicate ind 32 @ json_string (asc ''system'') @ asc '': '' @ json_string sys @ asc '','']"
  let ?tail = "replicate ind 32 @ json_string (asc ''tools'') @ asc '': '' @ json_text ind 1 tv @
      asc '','' @ newline_indent ind 1 @
      json_string (asc ''messages'') @ asc '': '' @ json_text ind 1 mv @
      newline_indent ind 0 @ asc ''}''"
  have shape: "json_text ind 0
      (PDict [(asc ''model'', PStr model), (asc ''max_tokens'', PInt max_tokens),
              (asc ''system'', PStr sys), (asc ''tools'', tv), (asc ''messages'', mv)]) =
      concat (map (\<lambda>l. l @ [10]) ?ls) @ ?tail"
    by (simp add: newline_indent_def)
  have clean: "\<forall>l \<in> set ?ls. 10 \<notin> set l"
    by (simp add: json_string_no_nl str_int_no_nl asc_def)
  show ?thesis
    unfolding shape split_nl_lines [OF clean] by blast
qed


lemma json_string_system: "json_string (asc ''system'') = [34] @ asc ''system'' @ [34]"
  by (simp add: json_string_def asc_def json_escape_char_def)

lemma json_string_dots:
  "json_string (s @ asc ''...'') = [34] @ concat (map json_escape_char s) @ asc ''...'' @ [34]"
  by (simp add: json_string_def asc_def json_escape_char_def)

lemma replicate_2: "replicate 2 x = [x, x]"
  by (simp add: numeral_eq_Suc)

lemma take_head_body: "length h = a \<Longrightarrow> n \<le> length e \<Longrightarrow> take (a + n) (h @ e @ t) = h @ take n e"
  by simp

lemma code_block_line_system:
  assumes "60 \<le> length s"
  shows "code_block_line
           (replicate 2 32 @ json_string (asc ''system'') @ asc '': '' @ json_string s @ asc '','') =
         color ([32, 32, 9474, 32] @ asc ''  '' @ [34] @ asc ''system'' @ [34] @ asc '': '' @ [34] @
                take 58 (concat (map json_escape_char s)) @ asc ''...'' @ [32, 9474]) ''dim''"
proof -
  define esc where "esc = concat (map json_escape_char s)"
  define head where "head = asc ''  '' @ [34] @ asc ''system'' @ [34] @ asc '': '' @ [34]"
  define tail where "tail = [34] @ asc '',''"
  have line: "replicate 2 32 @ json_string (asc ''system'') @ asc '': '' @ json_string s @ asc '','' =
      head @ esc @ tail"
    unfolding head_def esc_def tail_def
    by (simp add: json_string_system replicate_2) (simp add: json_string_def asc_def)
  have head: "length head = 13" and tail: "length tail = 2"
    by (simp_all add: head_def tail_def asc_def)
  have long: "60 \<le> length esc"
    using assms json_escape_length [of s] by (simp add: esc_def)
  then have "58 \<le> length esc"
    by simp
  with head have "take (13 + 58) (head @ esc @ tail) = head @ take 58 esc"
    by (rule take_head_body)
  then have cut: "take 71 (head @ esc @ tail) = head @ take 58 esc"
    by simp
  have "length (head @ esc @ tail) > 74"
    using long by (simp add: head tail)
  then have "code_block_line (head @ esc @ tail) =
      color ([32, 32, 9474, 32] @ ljust 74 (head @ take 58 esc @ asc ''...'') @ [32, 9474]) ''dim''"
    unfolding code_block_line_def Let_def cut by simp
  moreover have "length (head @ take 58 esc @ asc ''...'') = 74"
    using long by (simp add: head asc_def)
  then have "ljust 74 (head @ take 58 esc @ asc ''...'') = head @ take 58 esc @ asc ''...''"
    by (simp add: ljust_def)
  ultimately show ?thesis
    unfolding line by (simp add: head_def esc_def)
qed

text \<open>
  Claim C4, as amended. When \<open>request_raw\<close> runs to its end on a system prompt of 150
  characters and JSON-serializable data, the structure preview has the line of the system
  field with the first 100 characters (as JSON escapes them) followed by \<open>...\<close>, and the
  code block printed afterwards has the system line cut, as every line longer than 74
  characters is, to its first 71 characters and \<open>...\<close>: it shows the first 58 characters
  of the JSON-escaped system prompt, not all 150.
\<close>

theorem system_prompt_150:
  assumes "show_raw L" and "length system = 150"
    and "request_data pr model system messages tools max_tokens = Inr d"
    and "first_unserializable d = None"
    and "serialize_messages pr messages = Inr sm"
    and "first_unserializable (PList tools) = None"
    and "first_unserializable (PList sm) = None"
  shows "color (asc ''        '' @ [34] @ asc ''system'' @ [34] @ asc '': '' @ [34] @
                concat (map json_escape_char (take 100 system)) @ asc ''...'' @ [34] @ asc '','')
           ''dim''
         \<in> set (printed (request_raw pr L model system messages tools max_tokens)) \<and>
         color ([32, 32, 9474, 32] @ asc ''  '' @ [34] @ asc ''system'' @ [34] @ asc '': '' @ [34] @
                take 58 (concat (map json_escape_char system)) @ asc ''...'' @ [32, 9474]) ''dim''
         \<in> set (printed (request_raw pr L model system messages tools max_tokens))"
proof -
  let ?full = "PDict [(asc ''model'', PStr model), (asc ''max_tokens'', PInt max_tokens),
               (asc ''system'', PStr system), (asc ''tools'', PList tools),
               (asc ''messages'', PList sm)]"
  from assms(3) obtain ts ms where d:
    "d = PDict [(asc ''model'', PStr model), (asc ''max_tokens'', PInt max_tokens),
                (asc ''system'', PStr (take 100 system @ asc ''...'')),
                (asc ''tools'', PList ts), (asc ''messages'', PList ms)]"
    using assms(2) by (auto simp: request_data_def ebind_def split: sum.splits)
  have dumps_d: "json_dumps 4 d = Inr (json_text 4 0 d)"
    using assms(4) by (simp add: json_dumps_def)
  obtain rest where lines_d: "split_nl (json_text 4 0 d) =
     [asc ''{'',
      replicate 4 32 @ json_string (asc ''model'') @ asc '': '' @ json_string model @ asc '','',
      replicate 4 32 @ json_string (asc ''max_tokens'') @ asc '': '' @ str_int max_tokens @ asc '','',
      replicate 4 32 @ json_string (asc ''system'') @ asc '': '' @
        json_string (take 100 system @ asc ''...'') @ asc '',''] @ rest"
    unfolding d using request_json_lines [of 4 model max_tokens "take 100 system @ asc ''...''"] by blast
  have preview_line:
    "asc ''    '' @ replicate 4 32 @ json_string (asc ''system'') @ asc '': '' @
        json_string (take 100 system @ asc ''...'') @ asc '','' =
     asc ''        '' @ [34] @ asc ''system'' @ [34] @ asc '': '' @ [34] @
        concat (map json_escape_char (take 100 system)) @ asc ''...'' @ [34] @ asc '',''"
    by (simp add: json_string_system json_string_dots replicate_4) (simp add: asc_def)
  have preview: "color (asc ''        '' @ [34] @ asc ''system'' @ [34] @ asc '': '' @ [34] @
        concat (map json_escape_char (take 100 system)) @ asc ''...'' @ [34] @ asc '','') ''dim''
      \<in> set (printed (print_structured_json L d (asc ''Request Structure'')))"
    unfolding print_structured_json_printed [OF dumps_d] lines_d preview_line [symmetric]
    by simp
  have "first_unserializable ?full = None"
    using assms(6,7) by simp
  then have dumps_full: "json_dumps 2 ?full = Inr (json_text 2 0 ?full)"
    by (simp add: json_dumps_def)
  obtain rest' where lines_full: "split_nl (json_text 2 0 ?full) =
     [asc ''{'',
      replicate 2 32 @ json_string (asc ''model'') @ asc '': '' @ json_string model @ asc '','',
      replicate 2 32 @ json_string (asc ''max_tokens'') @ asc '': '' @ str_int max_tokens @ asc '','',
      replicate 2 32 @ json_string (asc ''system'') @ asc '': '' @ json_string system @ asc '',''] @
     rest'"
    using request_json_lines [of 2 model max_tokens system] by blast
  have "code_block_line
          (replicate 2 32 @ json_string (asc ''system'') @ asc '': '' @ json_string system @ asc '','')
        \<in> set (printed (print_code_block L ?full))"
    unfolding print_code_block_printed [OF dumps_full] lines_full by simp
  then have dump: "color ([32, 32, 9474, 32] @ asc ''  '' @ [34] @ asc ''system'' @ [34] @ asc '': '' @
        [34] @ take 58 (concat (map json_escape_char system)) @ asc ''...'' @ [32, 9474]) ''dim''
      \<in> set (printed (print_code_block L ?full))"
    using assms(2) by (simp add: code_block_line_system)
  from preview dump show ?thesis
    unfolding request_raw_printed [OF assms(1,3,5)] by simp
qed

lemma json_escape_letters_replicate:
  "concat (replicate n (json_escape_char 97)) = replicate n 97"
  by (induction n) (simp_all add: json_escape_char_def)

theorem system_prompt_150_witness:
  "color (asc ''        '' @ [34] @ asc ''system'' @ [34] @ asc '': '' @ [34] @
          replicate 100 97 @ asc ''...'' @ [34] @ asc '','') ''dim''
   \<in> set (printed (request_raw example_printable (init True True) (asc ''m'') (replicate 150 97)
         [] [] 8000)) \<and>
   color ([32, 32, 9474, 32] @ asc ''  '' @ [34] @ asc ''system'' @ [34] @ asc '': '' @ [34] @
          replicate 58 97 @ asc ''...'' @ [32, 9474]) ''dim''
   \<in> set (printed (request_raw example_printable (init True True) (asc ''m'') (replicate 150 97)
         [] [] 8000))"
proof -
  have on: "show_raw (init True True)"
    by (simp add: init_def)
  have len: "length (replicate 150 (97::nat)) = 150"
    by simp
  have data: "request_data example_printable (asc ''m'') (replicate 150 97) [] [] 8000 =
      Inr (PDict [(asc ''model'', PStr (asc ''m'')), (asc ''max_tokens'', PInt 8000),
             (asc ''system'', PStr (replicate 100 97 @ asc ''...'')),
             (asc ''tools'', PList []), (asc ''messages'', PList [])])"
    by (simp add: request_data_def ebind_def)
  have plain: "first_unserializable (PDict [(asc ''model'', PStr (asc ''m'')), (asc ''max_tokens'', PInt 8000),
             (asc ''system'', PStr (replicate 100 97 @ asc ''...'')),
             (asc ''tools'', PList []), (asc ''messages'', PList [])]) = None"
    by simp
  have sm: "serialize_messages example_printable [] = Inr []"
    by (simp add: serialize_messages_def)
  have empty: "first_unserializable (PList []) = None"
    by simp
  show ?thesis
    using system_prompt_150 [OF on len data plain sm empty empty]
    by (simp add: json_escape_letters_replicate)
qed

lemma sublist_too_long: "length l < length s \<Longrightarrow> \<not> sublist s l"
  using sublist_length_le [of s l] by auto

lemma color_length: "length (color t c) \<le> length t + 10"
proof -
  have "length (case map_of COLORS c of Some esc \<Rightarrow> esc | None \<Rightarrow> []) \<le> 5"
    by (simp add: COLORS_def asc_def)
  moreover have "length (case map_of COLORS ''reset'' of Some esc \<Rightarrow> esc | None \<Rightarrow> []) = 4"
    by (simp add: COLORS_def asc_def)
  ultimately show ?thesis
    by (simp add: color_def)
qed

lemma code_block_line_length: "length (code_block_line l) \<le> 90"
proof -
  have "length (ljust 74 (if length l > 74 then take 71 l @ asc ''...'' else l)) = 74"
    by (simp add: ljust_def asc_def)
  then have "length ([32, 32, 9474, 32] @ ljust 74 (if length l > 74 then take 71 l @ asc ''...'' else l) @
      [32, 9474]) = 80"
    by simp
  with color_length [of "[32, 32, 9474, 32] @
      ljust 74 (if length l > 74 then take 71 l @ asc ''...'' else l) @ [32, 9474]" "''dim''"]
  show ?thesis
    by (simp add: code_block_line_def Let_def)
qed

lemma print_code_block_lines:
  assumes "json_dumps 2 d = Inr t" and "l \<in> set (printed (print_code_block L d))"
  shows "length l \<le> 90"
proof -
  have border: "length (color (asc ''  '' @ [a] @ replicate 76 9472 @ [b]) ''dim'') \<le> 90" for a b
    using color_length [of "asc ''  '' @ [a] @ replicate 76 9472 @ [b]" "''dim''"]
    by (simp add: asc_def)
  from assms(2) consider
      "l = color (asc ''  '' @ [9484] @ replicate 76 9472 @ [9488]) ''dim''"
    | "l \<in> code_block_line ` set (split_nl t)"
    | "l = color (asc ''  '' @ [9492] @ replicate 76 9472 @ [9496]) ''dim''"
    unfolding print_code_block_printed [OF assms(1)] by auto
  then show ?thesis
  proof cases
    case 1 then show ?thesis using border by simp
  next
    case 2 then show ?thesis using code_block_line_length by auto
  next
    case 3 then show ?thesis using border by simp
  qed
qed

lemma json_escape_letters: "concat (map json_escape_char (replicate n 97)) = replicate n 97"
  by (induction n) (simp_all add: json_escape_char_def)

lemma example_preview_lines:
  "split_nl (json_text 4 0
     (PDict [(asc ''model'', PStr (asc ''m'')), (asc ''max_tokens'', PInt 8000),
             (asc ''system'', PStr (replicate 100 97 @ asc ''...'')),
             (asc ''tools'', PList []), (asc ''messages'', PList [])])) =
   [asc ''{'',
    replicate 4 32 @ json_string (asc ''model'') @ asc '': '' @ json_string (asc ''m'') @ asc '','',
    replicate 4 32 @ json_string (asc ''max_tokens'') @ asc '': '' @ str_int 8000 @ asc '','',
    replicate 4 32 @ json_string (asc ''system'') @ asc '': '' @
      json_string (replicate 100 97 @ asc ''...'') @ asc '','',
    replicate 4 32 @ json_string (asc ''tools'') @ asc '': '' @ asc ''[]'' @ asc '','',
    replicate 4 32 @ json_string (asc ''messages'') @ asc '': '' @ asc ''[]'',
    asc ''}'']"
proof -
  let ?ls = "[asc ''{'',
    replicate 4 32 @ json_string (asc ''model'') @ asc '': '' @ json_string (asc ''m'') @ asc '','',
    replicate 4 32 @ json_string (asc ''max_tokens'') @ asc '': '' @ str_int 8000 @ asc '','',
    replicate 4 32 @ json_string (asc ''system'') @ asc '': '' @
      json_string (replicate 100 97 @ asc ''...'') @ asc '','',
    replicate 4 32 @ json_string (asc ''tools'') @ asc '': '' @ asc ''[]'' @ asc '','',
    replicate 4 32 @ json_string (asc ''messages'') @ asc '': '' @ asc ''[]'']"
  have shape: "json_text 4 0
     (PDict [(asc ''model'', PStr (asc ''m'')), (asc ''max_tokens'', PInt 8000),
             (asc ''system'', PStr (replicate 100 97 @ asc ''...'')),
             (asc ''tools'', PList []), (asc ''messages'', PList [])]) =
     concat (map (\<lambda>l. l @ [10]) ?ls) @ asc ''}''"
    by (simp add: newline_indent_def)
  have clean: "\<forall>l \<in> set ?ls. 10 \<notin> set l"
    by (simp add: json_string_no_nl str_int_no_nl asc_def)
  have last: "split_nl (asc ''}'') = [asc ''}'']"
    by (simp add: asc_def)
  show ?thesis
    unfolding shape split_nl_lines [OF clean] last by simp
qed

lemma json_string_length: "length (json_string s) = length (concat (map json_escape_char s)) + 2"
  by (simp add: json_string_def)

text \<open>
  Claim C4 as the specification states it has the whole system prompt in the full JSON dump.
  For a system prompt of 150 letters \<open>a\<close>, no line the call prints contains the prompt.
\<close>

theorem full_dump_counterexample:
  "\<not> list_ex (sublist (replicate 150 97))
      (printed (request_raw example_printable (init True True) (asc ''m'') (replicate 150 97)
         [] [] 8000))"
proof -
  let ?L = "init True True"
  let ?d = "PDict [(asc ''model'', PStr (asc ''m'')), (asc ''max_tokens'', PInt 8000),
             (asc ''system'', PStr (replicate 100 97 @ asc ''...'')),
             (asc ''tools'', PList []), (asc ''messages'', PList [])]"
  let ?full = "PDict [(asc ''model'', PStr (asc ''m'')), (asc ''max_tokens'', PInt 8000),
               (asc ''system'', PStr (replicate 150 97)), (asc ''tools'', PList []),
               (asc ''messages'', PList [])]"
  have on: "show_raw ?L"
    by (simp add: init_def)
  have data: "request_data example_printable (asc ''m'') (replicate 150 97) [] [] 8000 = Inr ?d"
    by (simp add: request_data_def ebind_def)
  have sm: "serialize_messages example_printable [] = Inr []"
    by (simp add: serialize_messages_def)
  have dumps_d: "json_dumps 4 ?d = Inr (json_text 4 0 ?d)"
    and dumps_full: "json_dumps 2 ?full = Inr (json_text 2 0 ?full)"
    by (simp_all add: json_dumps_def)
  have short: "length l < 150"
    if "l \<in> set (printed (request_raw example_printable ?L (asc ''m'') (replicate 150 97) [] [] 8000))"
    for l
  proof -
    from that consider
        (banner) "l \<in> {color (10 # [9484] @ replicate 78 9472 @ [9488]) ''magenta'',
           color ([9474, 32, 32, 128228] @ asc '' RAW API REQUEST'' @ replicate 57 32 @ [9474]) ''magenta'',
           color ([9492] @ replicate 78 9472 @ [9496]) ''magenta'',
           color ([10, 32, 32, 128196] @ asc '' Full Request JSON (copy-paste ready):'') ''cyan''}"
      | (preview) "l \<in> set (printed (print_structured_json ?L ?d (asc ''Request Structure'')))"
      | (dump) "l \<in> set (printed (print_code_block ?L ?full))"
      unfolding request_raw_printed [OF on data sm] by auto
    then show ?thesis
    proof cases
      case banner
      then show ?thesis
        by (auto simp: color_known asc_def)
    next
      case preview
      then show ?thesis
        unfolding print_structured_json_printed [OF dumps_d] example_preview_lines
        by (auto simp: color_known json_string_length json_escape_letters str_int_def
            digits10.simps) (simp_all add: asc_def json_escape_char_def)
    next
      case dump
      from print_code_block_lines [OF dumps_full dump] show ?thesis by simp
    qed
  qed
  show ?thesis
  proof
    assume "list_ex (sublist (replicate 150 97))
      (printed (request_raw example_printable ?L (asc ''m'') (replicate 150 97) [] [] 8000))"
    then obtain l where
      l: "l \<in> set (printed (request_raw example_printable ?L (asc ''m'') (replicate 150 97) [] [] 8000))"
      and sub: "sublist (replicate 150 97) l"
      by (auto simp: list_ex_iff)
    from short [OF l] have "length l < length (replicate 150 (97::nat))" by simp
    with sub show False using sublist_too_long by blast
  qed
qed

subsection \<open>The structure preview of a request\<close>

lemma block_field_conv:
  "block_field b name dflt = (case block_field_opt b name of Some v \<Rightarrow> v | None \<Rightarrow> dflt)"
  by (cases b) (simp_all add: block_field_def block_field_opt_def dict_get_def py_getattr_def)

lemma summarize_block_spec:
  assumes "typed_block b"
  shows "summarize_block pr b = Inr (spec_block_token b)"
proof (cases "block_field_opt b (asc ''type'')")
  case None
  then show ?thesis
    by (simp add: summarize_block_def spec_block_token_def block_field_conv asc_def)
next
  case (Some t)
  show ?thesis
  proof (cases "t = PStr (asc ''tool_result'')")
    case True
    with Some assms have "string_or_absent (block_field_opt b (asc ''tool_use_id''))"
      by (simp add: typed_block_def)
    with Some True show ?thesis
      by (auto simp: summarize_block_def spec_block_token_def block_field_conv block_string_def
          string_or_absent_def py_slice_def py_str_def ebind_def
          split: option.splits pyval.splits)
  next
    case False
    note not_result = this
    show ?thesis
    proof (cases "t = PStr (asc ''tool_use'')")
      case True
      with Some assms not_result have "string_or_absent (block_field_opt b (asc ''name''))"
        by (simp add: typed_block_def)
      with Some True not_result show ?thesis
        by (auto simp: summarize_block_def spec_block_token_def block_field_conv block_string_def
            string_or_absent_def py_str_def
            split: option.splits pyval.splits)
    next
      case False
      with Some not_result show ?thesis
        by (simp add: summarize_block_def spec_block_token_def block_field_conv)
    qed
  qed
qed

text \<open>Reading by attribute agrees with reading either way on a block given by attributes,
  and finds nothing on any other block.\<close>

lemma summarize_object_block_spec:
  assumes "typed_block b"
  shows "summarize_object_block pr b = Inr (attribute_block_token b)"
proof (cases b)
  case (PObj c r a)
  then have "summarize_object_block pr b = summarize_block pr b"
    by (simp add: summarize_object_block_def summarize_block_def block_field_def Let_def)
  with assms PObj show ?thesis
    by (simp add: summarize_block_spec attribute_block_token_def)
qed (simp_all add: summarize_object_block_def py_getattr_def attribute_block_token_def asc_def)

lemma map_err_all:
  assumes "\<And>x. x \<in> set xs \<Longrightarrow> f x = Inr (g x)"
  shows "map_err f xs = Inr (map g xs)"
  using assms by (induction xs) simp_all

lemma message_entry_spec:
  assumes "previewable msg"
  shows "message_entry pr msg = Inr (spec_message_preview msg)"
proof -
  from assms obtain m r where msg: "msg = PDict m" and role: "map_of m (asc ''role'') = Some r"
    by (cases msg) (auto simp: previewable_def)
  show ?thesis
  proof (cases "dict_get m (asc ''content'') (PStr [])")
    case (PStr s)
    with msg role show ?thesis
      by (simp add: message_entry_def spec_message_preview_def py_item_def py_get_def
          dict_item_def ebind_def dict_get_def)
  next
    case (PList blocks)
    with assms msg have "list_all typed_block blocks"
      by (simp add: previewable_def)
    then have "map_err (summarize_block pr) blocks = Inr (map spec_block_token blocks)"
      by (intro map_err_all summarize_block_spec) (simp add: list_all_iff)
    with msg role PList show ?thesis
      by (simp add: message_entry_def spec_message_preview_def py_item_def py_get_def
          dict_item_def ebind_def dict_get_def)
  next
    case (PTuple blocks)
    with assms msg have "list_all typed_block blocks"
      by (simp add: previewable_def)
    then have "map_err (summarize_object_block pr) blocks = Inr (map attribute_block_token blocks)"
      by (intro map_err_all summarize_object_block_spec) (simp add: list_all_iff)
    with msg role PTuple show ?thesis
      by (simp add: message_entry_def spec_message_preview_def py_item_def py_get_def
          dict_item_def ebind_def dict_get_def py_iter_def)
  qed (use assms msg in \<open>simp_all add: previewable_def\<close>)
qed

lemma request_preview_messages:
  assumes "list_all previewable messages" and "map_err tool_entry tools = Inr tool_entries"
  shows "request_data pr model system messages tools max_tokens =
           Inr (PDict
             [(asc ''model'', PStr model),
              (asc ''max_tokens'', PInt max_tokens),
              (asc ''system'',
               PStr (if length system > 100 then take 100 system @ asc ''...'' else system)),
              (asc ''tools'', PList tool_entries),
              (asc ''messages'', PList (map spec_message_preview messages))])"
proof -
  have "map_err (message_entry pr) messages = Inr (map spec_message_preview messages)"
    using assms(1) by (intro map_err_all message_entry_spec) (simp add: list_all_iff)
  with assms(2) show ?thesis
    by (simp add: request_data_def ebind_def)
qed

lemma request_raw_preview_printed:
  assumes "show_raw L" and "request_data pr model system messages tools max_tokens = Inr d"
    and "first_unserializable d = None"
  shows "prefix
     ([color (10 # [9484] @ replicate 78 9472 @ [9488]) ''magenta'',
       color ([9474, 32, 32, 128228] @ asc '' RAW API REQUEST'' @ replicate 57 32 @ [9474])
         ''magenta'',
       color ([9492] @ replicate 78 9472 @ [9496]) ''magenta'',
       color ([10, 32, 32, 128202, 32] @ asc ''Request Structure'' @ asc '':'') ''cyan''] @
      map (\<lambda>line. color (asc ''    '' @ line) ''dim'') (split_nl (json_text 4 0 d)))
     (printed (request_raw pr L model system messages tools max_tokens))"
proof -
  have "json_dumps 4 d = Inr (json_text 4 0 d)"
    using assms(3) by (simp add: json_dumps_def)
  from print_structured_json_printed [OF this, of L "asc ''Request Structure''"] assms(1,2)
  show ?thesis
    by (simp add: request_raw_def seq_sel try_eval_sel split: sum.splits)
qed

text \<open>
  Claim C6, as amended. For messages of the data model whose preview is JSON-serializable, the
  dictionary \<open>request_raw\<close> builds holds, under \<open>messages\<close>, the reduction of every message
  in input order: \<open><text: N chars>\<close> for a string content; for a list of blocks, in either
  representation, the tokens \<open>tool_result(id=<first 16 characters>...)\<close>,
  \<open>tool_use(name=<name>)\<close>, the type tag, or \<open>unknown\<close>; and for a content that is a
  sequence but not a list (a tuple), whose blocks the code reads by attribute only, the same
  tokens for the blocks given by attributes and \<open>unknown\<close> for every other block, a mapping
  included. After its banner \<open>request_raw\<close> prints the heading and that dictionary as
  JSON, line by line.
\<close>

theorem request_preview_tokens:
  assumes "list_all previewable messages" and "map_err tool_entry tools = Inr tool_entries"
    and "show_raw L"
    and "first_unserializable (PList tool_entries) = None"
    and "first_unserializable (PList (map spec_message_preview messages)) = None"
  shows "(let preview = PDict
             [(asc ''model'', PStr model),
              (asc ''max_tokens'', PInt max_tokens),
              (asc ''system'',
               PStr (if length system > 100 then take 100 system @ asc ''...'' else system)),
              (asc ''tools'', PList tool_entries),
              (asc ''messages'', PList (map spec_message_preview messages))]
          in request_data pr model system messages tools max_tokens = Inr preview \<and>
             prefix
               ([color (10 # [9484] @ replicate 78 9472 @ [9488]) ''magenta'',
                 color ([9474, 32, 32, 128228] @ asc '' RAW API REQUEST'' @ replicate 57 32 @ [9474])
                   ''magenta'',
                 color ([9492] @ replicate 78 9472 @ [9496]) ''magenta'',
                 color ([10, 32, 32, 128202, 32] @ asc ''Request Structure'' @ asc '':'') ''cyan''] @
                map (\<lambda>line. color (asc ''    '' @ line) ''dim'') (split_nl (json_text 4 0 preview)))
               (printed (request_raw pr L model system messages tools max_tokens)))"
proof -
  let ?preview = "PDict
             [(asc ''model'', PStr model),
              (asc ''max_tokens'', PInt max_tokens),
              (asc ''system'',
               PStr (if length system > 100 then take 100 system @ asc ''...'' else system)),
              (asc ''tools'', PList tool_entries),
              (asc ''messages'', PList (map spec_message_preview messages))]"
  have data: "request_data pr model system messages tools max_tokens = Inr ?preview"
    using assms(1,2) by (rule request_preview_messages)
  have plain: "first_unserializable ?preview = None"
    using assms(4,5) by simp
  from data request_raw_preview_printed [OF assms(3) data plain] show ?thesis
    unfolding Let_def by blast
qed

lemma example_request_lines:
  "split_nl (json_text 4 0 (PDict
     [(asc ''model'', PStr (asc ''m'')),
      (asc ''max_tokens'', PInt 8000),
      (asc ''system'', PStr (asc ''be brief'')),
      (asc ''tools'', PList []),
      (asc ''messages'',
       PList [PDict [(asc ''role'', PStr (asc ''user'')),
              (asc ''content'', PStr (asc ''<text: 5 chars>''))],
       PDict [(asc ''role'', PStr (asc ''assistant'')),
              (asc ''content'',
               PList [PStr (asc ''text''), PStr (asc ''tool_use(name=bash)''),
                      PStr (asc ''tool_result(id=toolu_0123456789...)''),
                      PStr (asc ''unknown'')])],
       PDict [(asc ''role'', PStr (asc ''user'')),
              (asc ''content'',
               PList [PStr (asc ''tool_use(name=bash)''), PStr (asc ''unknown'')])]])])) =
     [asc ''{'',
      replicate 4 32 @ json_string (asc ''model'') @ asc '': '' @ json_string (asc ''m'') @ asc '','',
      replicate 4 32 @ json_string (asc ''max_tokens'') @ asc '': '' @ str_int 8000 @ asc '','',
      replicate 4 32 @ json_string (asc ''system'') @ asc '': '' @ json_string (asc ''be brief'') @
        asc '','',
      replicate 4 32 @ json_string (asc ''tools'') @ asc '': '' @ asc ''[]'' @ asc '','',
      replicate 4 32 @ json_string (asc ''messages'') @ asc '': '' @ asc ''['',
      replicate 8 32 @ asc ''{'',
      replicate 12 32 @ json_string (asc ''role'') @ asc '': '' @ json_string (asc ''user'') @ asc '','',
      replicate 12 32 @ json_string (asc ''content'') @ asc '': '' @
        json_string (asc ''<text: 5 chars>''),
      replicate 8 32 @ asc ''}'' @ asc '','',
      replicate 8 32 @ asc ''{'',
      replicate 12 32 @ json_string (asc ''role'') @ asc '': '' @ json_string (asc ''assistant'') @
        asc '','',
      replicate 12 32 @ json_string (asc ''content'') @ asc '': '' @ asc ''['',
      replicate 16 32 @ json_string (asc ''text'') @ asc '','',
      replicate 16 32 @ json_string (asc ''tool_use(name=bash)'') @ asc '','',
      replicate 16 32 @ json_string (asc ''tool_result(id=toolu_0123456789...)'') @ asc '','',
      replicate 16 32 @ json_string (asc ''unknown''),
      replicate 12 32 @ asc '']'',
      replicate 8 32 @ asc ''}'' @ asc '','',
      replicate 8 32 @ asc ''{'',
      replicate 12 32 @ json_string (asc ''role'') @ asc '': '' @ json_string (asc ''user'') @ asc '','',
      replicate 12 32 @ json_string (asc ''content'') @ asc '': '' @ asc ''['',
      replicate 16 32 @ json_string (asc ''tool_use(name=bash)'') @ asc '','',
      replicate 16 32 @ json_string (asc ''unknown''),
      replicate 12 32 @ asc '']'',
      replicate 8 32 @ asc ''}'',
      replicate 4 32 @ asc '']'',
      asc ''}'']"
proof -
  let ?ls = "[asc ''{'',
      replicate 4 32 @ json_string (asc ''model'') @ asc '': '' @ json_string (asc ''m'') @ asc '','',
      replicate 4 32 @ json_string (asc ''max_tokens'') @ asc '': '' @ str_int 8000 @ asc '','',
      replicate 4 32 @ json_string (asc ''system'') @ asc '': '' @ json_string (asc ''be brief'') @
        asc '','',
      replicate 4 32 @ json_string (asc ''tools'') @ asc '': '' @ asc ''[]'' @ asc '','',
      replicate 4 32 @ json_string (asc ''messages'') @ asc '': '' @ asc ''['',
      replicate 8 32 @ asc ''{'',
      replicate 12 32 @ json_string (asc ''role'') @ asc '': '' @ json_string (asc ''user'') @ asc '','',
      replicate 12 32 @ json_string (asc ''content'') @ asc '': '' @
        json_string (asc ''<text: 5 chars>''),
      replicate 8 32 @ asc ''}'' @ asc '','',
      replicate 8 32 @ asc ''{'',
      replicate 12 32 @ json_string (asc ''role'') @ asc '': '' @ json_string (asc ''assistant'') @
        asc '','',
      replicate 12 32 @ json_string (asc ''content'') @ asc '': '' @ asc ''['',
      replicate 16 32 @ json_string (asc ''text'') @ asc '','',
      replicate 16 32 @ json_string (asc ''tool_use(name=bash)'') @ asc '','',
      replicate 16 32 @ json_string (asc ''tool_result(id=toolu_0123456789...)'') @ asc '','',
      replicate 16 32 @ json_string (asc ''unknown''),
      replicate 12 32 @ asc '']'',
      replicate 8 32 @ asc ''}'' @ asc '','',
      replicate 8 32 @ asc ''{'',
      replicate 12 32 @ json_string (asc ''role'') @ asc '': '' @ json_string (asc ''user'') @ asc '','',
      replicate 12 32 @ json_string (asc ''content'') @ asc '': '' @ asc ''['',
      replicate 16 32 @ json_string (asc ''tool_use(name=bash)'') @ asc '','',
      replicate 16 32 @ json_string (asc ''unknown''),
      replicate 12 32 @ asc '']'',
      replicate 8 32 @ asc ''}'',
      replicate 4 32 @ asc '']'']"
  have shape: "json_text 4 0 (PDict
     [(asc ''model'', PStr (asc ''m'')),
      (asc ''max_tokens'', PInt 8000),
      (asc ''system'', PStr (asc ''be brief'')),
      (asc ''tools'', PList []),
      (asc ''messages'',
       PList [PDict [(asc ''role'', PStr (asc ''user'')),
              (asc ''content'', PStr (asc ''<text: 5 chars>''))],
       PDict [(asc ''role'', PStr (asc ''assistant'')),
              (asc ''content'',
               PList [PStr (asc ''text''), PStr (asc ''tool_use(name=bash)''),
                      PStr (asc ''tool_result(id=toolu_0123456789...)''),
                      PStr (asc ''unknown'')])],
       PDict [(asc ''role'', PStr (asc ''user'')),
              (asc ''content'',
               PList [PStr (asc ''tool_use(name=bash)''), PStr (asc ''unknown'')])]])]) =
      concat (map (\<lambda>l. l @ [10]) ?ls) @ asc ''}''"
    by (simp add: newline_indent_def)
  have clean: "\<forall>l \<in> set ?ls. 10 \<notin> set l"
    by (simp add: json_string_no_nl str_int_no_nl asc_def)
  have last: "split_nl (asc ''}'') = [asc ''}'']"
    by (simp add: asc_def)
  show ?thesis
    unfolding shape split_nl_lines [OF clean] last by simp
qed

theorem request_preview_tokens_witness:
  "request_data example_printable (asc ''m'') (asc ''be brief'')
     [PDict [(asc ''role'', PStr (asc ''user'')), (asc ''content'', PStr (asc ''hello''))],
      PDict [(asc ''role'', PStr (asc ''assistant'')),
             (asc ''content'',
              PList [PDict [(asc ''type'', PStr (asc ''text'')), (asc ''text'', PStr (asc ''ok''))],
                     PObj (asc ''ToolUseBlock'') (asc ''ToolUseBlock()'')
                       [(asc ''type'', PStr (asc ''tool_use'')), (asc ''name'', PStr (asc ''bash''))],
                     PDict [(asc ''type'', PStr (asc ''tool_result'')),
                            (asc ''tool_use_id'', PStr (asc ''toolu_0123456789abcdef''))],
                     PDict [(asc ''text'', PStr (asc ''untagged''))]])],
      PDict [(asc ''role'', PStr (asc ''user'')),
             (asc ''content'',
              PTuple [PObj (asc ''ToolUseBlock'') (asc ''ToolUseBlock()'')
                        [(asc ''type'', PStr (asc ''tool_use'')), (asc ''name'', PStr (asc ''bash''))],
                      PDict [(asc ''type'', PStr (asc ''tool_use'')),
                             (asc ''name'', PStr (asc ''bash''))]])]]
     [] 8000 =
   Inr (PDict
     [(asc ''model'', PStr (asc ''m'')),
      (asc ''max_tokens'', PInt 8000),
      (asc ''system'', PStr (asc ''be brief'')),
      (asc ''tools'', PList []),
      (asc ''messages'',
       PList [PDict [(asc ''role'', PStr (asc ''user'')),
              (asc ''content'', PStr (asc ''<text: 5 chars>''))],
       PDict [(asc ''role'', PStr (asc ''assistant'')),
              (asc ''content'',
               PList [PStr (asc ''text''), PStr (asc ''tool_use(name=bash)''),
                      PStr (asc ''tool_result(id=toolu_0123456789...)''),
                      PStr (asc ''unknown'')])],
       PDict [(asc ''role'', PStr (asc ''user'')),
              (asc ''content'',
               PList [PStr (asc ''tool_use(name=bash)''), PStr (asc ''unknown'')])]])]) \<and>
   prefix
     ([color (10 # [9484] @ replicate 78 9472 @ [9488]) ''magenta'',
       color ([9474, 32, 32, 128228] @ asc '' RAW API REQUEST'' @ replicate 57 32 @ [9474])
         ''magenta'',
       color ([9492] @ replicate 78 9472 @ [9496]) ''magenta'',
       color ([10, 32, 32, 128202, 32] @ asc ''Request Structure'' @ asc '':'') ''cyan''] @
      map (\<lambda>line. color (asc ''    '' @ line) ''dim'')
     [asc ''{'',
      replicate 4 32 @ json_string (asc ''model'') @ asc '': '' @ json_string (asc ''m'') @ asc '','',
      replicate 4 32 @ json_string (asc ''max_tokens'') @ asc '': '' @ str_int 8000 @ asc '','',
      replicate 4 32 @ json_string (asc ''system'') @ asc '': '' @ json_string (asc ''be brief'') @
        asc '','',
      replicate 4 32 @ json_string (asc ''tools'') @ asc '': '' @ asc ''[]'' @ asc '','',
      replicate 4 32 @ json_string (asc ''messages'') @ asc '': '' @ asc ''['',
      replicate 8 32 @ asc ''{'',
      replicate 12 32 @ json_string (asc ''role'') @ asc '': '' @ json_string (asc ''user'') @ asc '','',
      replicate 12 32 @ json_string (asc ''content'') @ asc '': '' @
        json_string (asc ''<text: 5 chars>''),
      replicate 8 32 @ asc ''}'' @ asc '','',
      replicate 8 32 @ asc ''{'',
      replicate 12 32 @ json_string (asc ''role'') @ asc '': '' @ json_string (asc ''assistant'') @
        asc '','',
      replicate 12 32 @ json_string (asc ''content'') @ asc '': '' @ asc ''['',
      replicate 16 32 @ json_string (asc ''text'') @ asc '','',
      replicate 16 32 @ json_string (asc ''tool_use(name=bash)'') @ asc '','',
      replicate 16 32 @ json_string (asc ''tool_result(id=toolu_0123456789...)'') @ asc '','',
      replicate 16 32 @ json_string (asc ''unknown''),
      replicate 12 32 @ asc '']'',
      replicate 8 32 @ asc ''}'' @ asc '','',
      replicate 8 32 @ asc ''{'',
      replicate 12 32 @ json_string (asc ''role'') @ asc '': '' @ json_string (asc ''user'') @ asc '','',
      replicate 12 32 @ json_string (asc ''content'') @ asc '': '' @ asc ''['',
      replicate 16 32 @ json_string (asc ''tool_use(name=bash)'') @ asc '','',
      replicate 16 32 @ json_string (asc ''unknown''),
      replicate 12 32 @ asc '']'',
      replicate 8 32 @ asc ''}'',
      replicate 4 32 @ asc '']'',
      asc ''}''])
     (printed (request_raw example_printable (init True True) (asc ''m'') (asc ''be brief'')
     [PDict [(asc ''role'', PStr (asc ''user'')), (asc ''content'', PStr (asc ''hello''))],
      PDict [(asc ''role'', PStr (asc ''assistant'')),
             (asc ''content'',
              PList [PDict [(asc ''type'', PStr (asc ''text'')), (asc ''text'', PStr (asc ''ok''))],
                     PObj (asc ''ToolUseBlock'') (asc ''ToolUseBlock()'')
                       [(asc ''type'', PStr (asc ''tool_use'')), (asc ''name'', PStr (asc ''bash''))],
                     PDict [(asc ''type'', PStr (asc ''tool_result'')),
                            (asc ''tool_use_id'', PStr (asc ''toolu_0123456789abcdef''))],
                     PDict [(asc ''text'', PStr (asc ''untagged''))]])],
      PDict [(asc ''role'', PStr (asc ''user'')),
             (asc ''content'',
              PTuple [PObj (asc ''ToolUseBlock'') (asc ''ToolUseBlock()'')
                        [(asc ''type'', PStr (asc ''tool_use'')), (asc ''name'', PStr (asc ''bash''))],
                      PDict [(asc ''type'', PStr (asc ''tool_use'')),
                             (asc ''name'', PStr (asc ''bash''))]])]]
     [] 8000))"
proof -
  let ?messages =
    "[PDict [(asc ''role'', PStr (asc ''user'')), (asc ''content'', PStr (asc ''hello''))],
      PDict [(asc ''role'', PStr (asc ''assistant'')),
             (asc ''content'',
              PList [PDict [(asc ''type'', PStr (asc ''text'')), (asc ''text'', PStr (asc ''ok''))],
                     PObj (asc ''ToolUseBlock'') (asc ''ToolUseBlock()'')
                       [(asc ''type'', PStr (asc ''tool_use'')), (asc ''name'', PStr (asc ''bash''))],
                     PDict [(asc ''type'', PStr (asc ''tool_result'')),
                            (asc ''tool_use_id'', PStr (asc ''toolu_0123456789abcdef''))],
                     PDict [(asc ''text'', PStr (asc ''untagged''))]])],
      PDict [(asc ''role'', PStr (asc ''user'')),
             (asc ''content'',
              PTuple [PObj (asc ''ToolUseBlock'') (asc ''ToolUseBlock()'')
                        [(asc ''type'', PStr (asc ''tool_use'')), (asc ''name'', PStr (asc ''bash''))],
                      PDict [(asc ''type'', PStr (asc ''tool_use'')),
                             (asc ''name'', PStr (asc ''bash''))]])]]"
  have ok: "list_all previewable ?messages"
    by (simp add: previewable_def typed_block_def block_field_opt_def string_or_absent_def
        dict_get_def asc_def)
  have no_tools: "map_err tool_entry [] = Inr []"
    by simp
  have on: "show_raw (init True True)"
    by (simp add: init_def)
  have previews: "map spec_message_preview ?messages =
      [PDict [(asc ''role'', PStr (asc ''user'')),
              (asc ''content'', PStr (asc ''<text: 5 chars>''))],
       PDict [(asc ''role'', PStr (asc ''assistant'')),
              (asc ''content'',
               PList [PStr (asc ''text''), PStr (asc ''tool_use(name=bash)''),
                      PStr (asc ''tool_result(id=toolu_0123456789...)''),
                      PStr (asc ''unknown'')])],
       PDict [(asc ''role'', PStr (asc ''user'')),
              (asc ''content'',
               PList [PStr (asc ''tool_use(name=bash)''), PStr (asc ''unknown'')])]]"
    by (simp add: spec_message_preview_def spec_block_token_def attribute_block_token_def
        block_field_opt_def block_string_def dict_get_def str_int_def digits10.simps asc_def)
  have plain: "first_unserializable (PList (map spec_message_preview ?messages)) = None"
    unfolding previews by simp
  have empty: "first_unserializable (PList []) = None"
    by simp
  have short: "\<not> 100 < length (asc ''be brief'')"
    by (simp add: asc_def)
  show ?thesis
    using request_preview_tokens [OF ok no_tools on empty plain, where pr = example_printable
        and model = "asc ''m''" and max_tokens = 8000 and system = "asc ''be brief''"]
    unfolding Let_def previews by (simp only: short if_False example_request_lines)
qed

text \<open>
  Claim C6 as the specification states it reduces every block of a block sequence by its
  variant. In a tuple, a \<open>tool_use\<close> block given as a mapping is reduced to \<open>unknown\<close>,
  where the specification has \<open>tool_use(name=bash)\<close>.
\<close>

theorem request_preview_tokens_counterexample:
  "request_data example_printable (asc ''m'') (asc ''be brief'')
     [PDict [(asc ''role'', PStr (asc ''user'')),
             (asc ''content'',
              PTuple [PDict [(asc ''type'', PStr (asc ''tool_use'')),
                             (asc ''name'', PStr (asc ''bash''))]])]]
     [] 8000 =
   Inr (PDict
     [(asc ''model'', PStr (asc ''m'')),
      (asc ''max_tokens'', PInt 8000),
      (asc ''system'', PStr (asc ''be brief'')),
      (asc ''tools'', PList []),
      (asc ''messages'',
       PList [PDict [(asc ''role'', PStr (asc ''user'')),
                     (asc ''content'', PList [PStr (asc ''unknown'')])]])]) \<and>
   spec_block_token (PDict [(asc ''type'', PStr (asc ''tool_use'')),
                            (asc ''name'', PStr (asc ''bash''))]) =
     PStr (asc ''tool_use(name=bash)'')"
  by (simp add: request_data_def message_entry_def summarize_object_block_def py_item_def
      py_get_def py_iter_def py_getattr_def dict_item_def dict_get_def ebind_def
      spec_block_token_def block_field_opt_def block_string_def asc_def)

end
